theory Spec2Isabelle
  imports Main "HOL-Library.Product_Lexorder"
begin

section \<open>Strings and path normalisation\<close>

text \<open>
  JavaScript strings are modelled as \<^typ>\<open>string\<close> (lists of 8-bit characters); every
  path of the examples is ASCII.

  \<^verbatim>\<open>s.replace(/\/\//g, "/")\<close> scans the string from the left and replaces each
  non-overlapping occurrence of two slashes by one slash; the scan continues after the
  replaced pair, so the slash it has just written is never looked at again.
\<close>

fun replace_double_slash :: "string \<Rightarrow> string" where
  "replace_double_slash (a # b # cs) =
     (if a = CHR ''/'' \<and> b = CHR ''/'' then CHR ''/'' # replace_double_slash cs
      else a # replace_double_slash (b # cs))"
| "replace_double_slash cs = cs"

text \<open>\<^verbatim>\<open>s.replace(/\/$/, "")\<close>: one slash at the very end of the string is removed.\<close>

definition strip_trailing_slash :: "string \<Rightarrow> string" where
  "strip_trailing_slash s = (if s \<noteq> [] \<and> last s = CHR ''/'' then butlast s else s)"

text \<open>
  The helper of the getter \<^verbatim>\<open>middlewares\<close>:
  \<^verbatim>\<open>const normalizePath = (path) => path.replace(/\/\//g, "/").replace(/\/$/, "") || "/";\<close>
\<close>

definition normalizePath :: "string \<Rightarrow> string" where
  "normalizePath path =
     (let s = strip_trailing_slash (replace_double_slash path)
      in if s = [] then ''/'' else s)"

text \<open>
  The path expression of \<^verbatim>\<open>getRoutes\<close>, written twice there (for the application's
  own routes and for the routes of a mount):
  \<^verbatim>\<open>`${prefix}${r.path}`.replace(/\/\//g, "/").replace(/\/$/, "")\<close>.
  It has no fallback to \<^verbatim>\<open>"/"\<close>.
\<close>

definition route_path :: "string \<Rightarrow> string \<Rightarrow> string" where
  "route_path prefix path = strip_trailing_slash (replace_double_slash (prefix @ path))"


section \<open>Values, responses and the request context\<close>

text \<open>JSON data, as handed to \<^verbatim>\<open>Response.json\<close> and \<^verbatim>\<open>JSON.stringify\<close>.\<close>

datatype json =
    JNull
  | JBool bool
  | JNumber int
  | JString string
  | JArray "json list"
  | JObject "(string \<times> json) list"

text \<open>
  What a \<^verbatim>\<open>throw\<close> can carry, as far as the code under study looks at it: the code reads
  the property \<^verbatim>\<open>message\<close> of a caught value and hands it to \<^verbatim>\<open>JSON.stringify\<close>.
  \<^item> \<open>Error m\<close>: an object whose \<^verbatim>\<open>message\<close> is the string \<open>m\<close> (\<^verbatim>\<open>new Error(m)\<close> and its
    subclasses);
  \<^item> \<open>Message j\<close>: an object whose \<^verbatim>\<open>message\<close> is another value that \<^verbatim>\<open>JSON.stringify\<close>
    writes, as the JSON value \<open>j\<close> (a number, a boolean, \<^verbatim>\<open>null\<close>, an array, an object);
  \<^item> \<open>NoMessage\<close>: a value, neither \<^verbatim>\<open>null\<close> nor \<^verbatim>\<open>undefined\<close>, whose \<^verbatim>\<open>message\<close> reads as
    \<^verbatim>\<open>undefined\<close>, a function or a symbol (a thrown string, number or plain object):
    \<^verbatim>\<open>JSON.stringify\<close> leaves such a property out;
  \<^item> \<open>Nullish\<close>: \<^verbatim>\<open>throw null\<close> or \<^verbatim>\<open>throw undefined\<close>: reading \<^verbatim>\<open>message\<close> is itself a
    \<^verbatim>\<open>TypeError\<close>;
  \<^item> \<open>Unreadable e\<close>: an object whose \<^verbatim>\<open>message\<close> cannot be read: the read throws \<open>e\<close> (a
    getter that throws, a proxy);
  \<^item> \<open>Unserialisable e\<close>: an object whose \<^verbatim>\<open>message\<close> is read but makes \<^verbatim>\<open>JSON.stringify\<close>
    throw \<open>e\<close> (a \<^verbatim>\<open>TypeError\<close> for a BigInt or a cyclic value, or what a \<^verbatim>\<open>toJSON\<close> throws).
\<close>

datatype thrown =
    Error string
  | Message json
  | NoMessage
  | Nullish
  | Unreadable thrown
  | Unserialisable thrown

text \<open>
  The text of a \<^verbatim>\<open>TypeError\<close> raised by the engine differs between engines; one fixed
  text stands for it.
\<close>

definition engine_type_error :: thrown where
  "engine_type_error = Error ''TypeError''"

text \<open>
  A \<^verbatim>\<open>Response\<close>: its status, the headers handed to its constructor, and its body (a
  text, or the JSON text of a value, kept as that value).
\<close>

datatype body = BodyEmpty | BodyText string | BodyJson json

record response =
  status :: nat
  headers :: "(string \<times> string) list"
  body :: body

text \<open>
  The raw request of the host runtime, reduced to what \<^verbatim>\<open>Request\<close> reads from it: the
  method, the URL's path, the header \<^verbatim>\<open>Content-Type\<close> as \<^verbatim>\<open>headers.get\<close> returns it
  (\<open>None\<close> for \<^verbatim>\<open>null\<close>), and the outcome of each body reader (\<open>Inl\<close> when the promise
  rejects).
\<close>

record raw_request =
  raw_method :: string
  raw_pathname :: string
  raw_content_type :: "string option"
  raw_json :: "thrown + json"
  raw_text :: "thrown + string"
  raw_formData :: "thrown + (string \<times> string) list"

text \<open>
  \<^verbatim>\<open>Context\<close>: the wrapped request, the recorded response (\<^verbatim>\<open>#response\<close>, initially
  \<^verbatim>\<open>undefined\<close>), the key/value store \<^verbatim>\<open>#state\<close> and the reference \<^verbatim>\<open>#rest\<close> to the
  application. The context only ever reads \<^verbatim>\<open>service\<close> through that reference, so the
  reference is modelled by the \<^verbatim>\<open>#service\<close> slot of the application it points to:
  \<open>None\<close> is a \<^verbatim>\<open>null\<close> reference, \<open>Some None\<close> an application whose \<^verbatim>\<open>#service\<close> is
  \<^verbatim>\<open>null\<close> or another falsy value, \<open>Some (Some s)\<close> an application with the truthy service
  \<open>s\<close>.
\<close>

record ('v, 's) Context =
  ctx_request :: raw_request
  ctx_response :: "response option"
  ctx_state :: "string \<rightharpoonup> 'v"
  ctx_rest :: "'s option option"

text \<open>
  A handler is an \<^verbatim>\<open>async\<close> function of the context. Awaiting it either gives its return
  value (a response or \<^verbatim>\<open>undefined\<close>) or rethrows what it threw; in both cases it may
  have changed the context. Handlers are modelled by that settled outcome.
\<close>

datatype outcome = Returned "response option" | Threw thrown

type_synonym ('v, 's) handler = "('v, 's) Context \<Rightarrow> outcome \<times> ('v, 's) Context"

type_synonym ('v, 's) middleware_handler =
  "('v, 's) Context \<Rightarrow> ('v, 's) handler \<Rightarrow> outcome \<times> ('v, 's) Context"

section \<open>Routes, middlewares and applications\<close>

datatype http_method = GET | POST | PUT | DELETE | PATCH | OPTIONS

fun method_name :: "http_method \<Rightarrow> string" where
  "method_name GET = ''GET''"
| "method_name POST = ''POST''"
| "method_name PUT = ''PUT''"
| "method_name DELETE = ''DELETE''"
| "method_name PATCH = ''PATCH''"
| "method_name OPTIONS = ''OPTIONS''"

datatype ('v, 's) route =
  Route (r_method: http_method) (r_path: string) (r_handler: "('v, 's) handler")

datatype ('v, 's) middleware =
  Middleware (m_path: string) (m_handler: "('v, 's) middleware_handler")

text \<open>
  \<^verbatim>\<open>class Rest\<close>: the private fields \<^verbatim>\<open>#routes\<close>, \<^verbatim>\<open>#middlewares\<close>, \<^verbatim>\<open>#mounts\<close> (pairs of
  mount path and mounted application) and \<^verbatim>\<open>#service\<close>. The value describes an
  application when its tables are read; mounted applications are the values below it, so
  the mount graph is a finite tree (an application mounted into itself is not a value of
  this type).
\<close>

datatype ('v, 's) rest =
  Rest (routes: "('v, 's) route list")
       (middlewares: "('v, 's) middleware list")
       (mounts: "(string \<times> ('v, 's) rest) list")
       (service: "'s option")

definition new_Rest :: "('v, 's) rest" where
  "new_Rest = Rest [] [] [] None"


subsection \<open>Registration\<close>

text \<open>
  The constructor of \<^verbatim>\<open>Route\<close> checks the method (always one of the six here, since the
  methods \<^verbatim>\<open>get\<close>, \<^verbatim>\<open>post\<close>, ... pass a constant), then the path
  (\<^verbatim>\<open>if (!path || typeof path !== "string") throw new Error(`Invalid path: ${path}`)\<close>:
  the empty string is falsy) and the handler (a function by its type).
\<close>

definition new_Route ::
  "http_method \<Rightarrow> string \<Rightarrow> ('v, 's) handler \<Rightarrow> thrown + ('v, 's) route" where
  "new_Route m p h =
     (if p = [] then Inl (Error (''Invalid path: '' @ p)) else Inr (Route m p h))"

text \<open>
  \<^verbatim>\<open>#addRoute\<close>: the table is searched for a route with the same method and the same path
  string (\<^verbatim>\<open>r.method === route.method && r.path === route.path\<close>, on the paths as they
  were given); a hit throws, otherwise the route is pushed.
\<close>

definition addRoute :: "('v, 's) route \<Rightarrow> ('v, 's) rest \<Rightarrow> thrown + ('v, 's) rest" where
  "addRoute route app =
     (case find (\<lambda>r. r_method r = r_method route \<and> r_path r = r_path route) (routes app) of
        Some existingRoute \<Rightarrow>
          Inl (Error (''Route already exists: '' @ method_name (r_method route) @ '' ''
                      @ r_path route))
      | None \<Rightarrow>
          Inr (Rest (routes app @ [route]) (middlewares app) (mounts app) (service app)))"

text \<open>
  The six registration methods \<^verbatim>\<open>get\<close>, \<^verbatim>\<open>post\<close>, \<^verbatim>\<open>put\<close>, \<^verbatim>\<open>delete\<close>, \<^verbatim>\<open>patch\<close> and
  \<^verbatim>\<open>options\<close> differ in the method constant only.
\<close>

definition register ::
  "http_method \<Rightarrow> string \<Rightarrow> ('v, 's) handler \<Rightarrow> ('v, 's) rest \<Rightarrow> thrown + ('v, 's) rest" where
  "register m p h app =
     (case new_Route m p h of Inl e \<Rightarrow> Inl e | Inr route \<Rightarrow> addRoute route app)"

text \<open>
  \<^verbatim>\<open>use(paths, handler)\<close>: one \<^verbatim>\<open>Middleware\<close> per path, pushed in order; a single path is
  the one-element list.
\<close>

definition use ::
  "string list \<Rightarrow> ('v, 's) middleware_handler \<Rightarrow> ('v, 's) rest \<Rightarrow> ('v, 's) rest" where
  "use paths h app =
     Rest (routes app) (middlewares app @ map (\<lambda>p. Middleware p h) paths) (mounts app)
          (service app)"

text \<open>\<^verbatim>\<open>mount(path, app)\<close> pushes the pair; the argument is an application by its type.\<close>

definition mount :: "string \<Rightarrow> ('v, 's) rest \<Rightarrow> ('v, 's) rest \<Rightarrow> ('v, 's) rest" where
  "mount p child app =
     Rest (routes app) (middlewares app) (mounts app @ [(p, child)]) (service app)"

subsection \<open>The service\<close>

text \<open>
  \<^verbatim>\<open>get service() { if (!this.#service) throw new Error("Service not set"); return this.#service; }\<close>
  and the setter
  \<^verbatim>\<open>set service(service) { if (this.#service) throw new Error("Service already set"); this.#service = service; }\<close>.
  Both test the field for truthiness and nothing else reads it, so the field is an
  option: \<open>None\<close> while it holds \<^verbatim>\<open>null\<close> (its initial value) or any other falsy value,
  \<open>Some s\<close> when it holds the truthy value \<open>s\<close>. The argument of the setter is an option in
  the same sense: assigning a falsy value leaves the field falsy, so the getter still
  throws and a further assignment is accepted.
\<close>

definition get_service :: "('v, 's) rest \<Rightarrow> thrown + 's" where
  "get_service app =
     (case service app of None \<Rightarrow> Inl (Error ''Service not set'') | Some s \<Rightarrow> Inr s)"

definition set_service :: "'s option \<Rightarrow> ('v, 's) rest \<Rightarrow> thrown + ('v, 's) rest" where
  "set_service v app =
     (case service app of
        Some _ \<Rightarrow> Inl (Error ''Service already set'')
      | None \<Rightarrow> Inr (Rest (routes app) (middlewares app) (mounts app) v))"

subsection \<open>Flattening the mount tree\<close>

text \<open>\<^verbatim>\<open>const prefix = m.path === "/" ? "" : m.path;\<close>, in both flattening functions.\<close>

definition mount_prefix :: "string \<Rightarrow> string" where
  "mount_prefix p = (if p = ''/'' then [] else p)"

record ('v, 's) flat_route =
  fr_route :: "('v, 's) route"
  fr_path :: string
  fr_method :: http_method

text \<open>
  \<^verbatim>\<open>getRoutes\<close>: the application's own routes with the prefix \<^verbatim>\<open>this.basepath\<close> (a
  property the class never defines: the parameter's default \<^verbatim>\<open>""\<close> applies), followed by
  the routes of each mount in mount order, their paths prefixed by the mount path (the
  mount path \<^verbatim>\<open>"/"\<close> counts as \<^verbatim>\<open>""\<close>). \<^verbatim>\<open>toUpperCase\<close> leaves the six method names as
  they are.
\<close>

fun getRoutes :: "('v, 's) rest \<Rightarrow> ('v, 's) flat_route list" where
  "getRoutes (Rest rs ms mts sv) =
     map (\<lambda>r. \<lparr>fr_route = r, fr_path = route_path [] (r_path r), fr_method = r_method r\<rparr>) rs
     @ concat (map (\<lambda>m.
         let prefix = mount_prefix (fst m)
         in map (\<lambda>r. \<lparr>fr_route = fr_route r, fr_path = route_path prefix (fr_path r),
                        fr_method = fr_method r\<rparr>)
                (getRoutes (snd m))) mts)"

record ('v, 's) flat_middleware =
  fm_middleware :: "('v, 's) middleware"
  fm_path :: string
  fm_order :: nat

text \<open>
  The getter \<^verbatim>\<open>middlewares\<close>: the application's own middlewares with their index in
  \<^verbatim>\<open>#middlewares\<close> as \<^verbatim>\<open>order\<close>, followed by the flattened middlewares of each mount in
  mount order, each with \<^verbatim>\<open>order: currentMiddlewares.length + m.order\<close>.
\<close>

fun middlewares_getter :: "('v, 's) rest \<Rightarrow> ('v, 's) flat_middleware list" where
  "middlewares_getter (Rest rs ms mts sv) =
     (let currentMiddlewares =
            map (\<lambda>(index, m). \<lparr>fm_middleware = m, fm_path = normalizePath ([] @ m_path m),
                                fm_order = index\<rparr>)
                (zip [0..<length ms] ms);
          mountedMiddlewares =
            concat (map (\<lambda>mt.
              let prefix = mount_prefix (fst mt)
              in map (\<lambda>m. \<lparr>fm_middleware = fm_middleware m,
                             fm_path = normalizePath (prefix @ fm_path m),
                             fm_order = length currentMiddlewares + fm_order m\<rparr>)
                     (middlewares_getter (snd mt))) mts)
      in currentMiddlewares @ mountedMiddlewares)"


section \<open>Middleware matching\<close>

text \<open>
  \<^verbatim>\<open>#middlewaresOf\<close> turns the path of a middleware into the source of a regular
  expression by three replacements, in this order:
  \<^item> \<^verbatim>\<open>.replace(/[.*+?^${}()|[\]\\]/g, '\\$&')\<close> puts a backslash before every character
    that is special in a regular expression, so that it stands for itself;
  \<^item> \<^verbatim>\<open>.replace(/\\\*/g, '.+')\<close> turns every escaped star into \<^verbatim>\<open>.+\<close>;
  \<^item> \<^verbatim>\<open>.replace(/:([\w]+)/g, '([^/]+)')\<close> turns a colon and the longest run of word
    characters after it (at least one) into \<^verbatim>\<open>([^/]+)\<close>.
  The resulting expression is therefore a sequence of three kinds of items: a character
  standing for itself, \<^verbatim>\<open>.+\<close> and \<^verbatim>\<open>([^/]+)\<close>. \<open>regexPattern\<close> computes that sequence
  from the path. (The first two replacements insert backslashes, dots and pluses only,
  none of which is a colon or a word character, so the third sees the same colons and the
  same runs of word characters as the path has.)
\<close>

datatype rx_item = Lit char | AnyPlus | SegPlus

definition word_char :: "char \<Rightarrow> bool" where
  "word_char c \<longleftrightarrow>
     c \<in> set ''ABCDEFGHIJKLMNOPQRSTUVWXYZabcdefghijklmnopqrstuvwxyz0123456789_''"

function regexPattern :: "string \<Rightarrow> rx_item list" where
  "regexPattern [] = []"
| "regexPattern (c # cs) =
     (if c = CHR ''*'' then AnyPlus # regexPattern cs
      else if c = CHR '':'' \<and> cs \<noteq> [] \<and> word_char (hd cs)
        then SegPlus # regexPattern (dropWhile word_char cs)
      else Lit c # regexPattern cs)"
  by pat_completeness auto
termination
  by (relation "measure length") (auto simp: length_dropWhile_le less_Suc_eq_le)

text \<open>
  In a JavaScript regular expression without flags, \<^verbatim>\<open>.\<close> matches every character but
  a line terminator; of these, line feed and carriage return are characters of the model.
  \<^verbatim>\<open>[^/]\<close> matches every character but the slash.
\<close>

definition line_terminator :: "char \<Rightarrow> bool" where
  "line_terminator c \<longleftrightarrow> c = CHR 0x0A \<or> c = CHR 0x0D"

text \<open>
  \<open>rx_test k items s\<close>: some prefix of \<open>s\<close> matches the items in sequence and the rest of
  \<open>s\<close> satisfies \<open>k\<close>. \<^verbatim>\<open>RegExp.test\<close> answers whether a match exists, so the order in which
  a backtracking engine tries the alternatives does not matter.
\<close>

fun rx_test :: "(string \<Rightarrow> bool) \<Rightarrow> rx_item list \<Rightarrow> string \<Rightarrow> bool" where
  "rx_test k [] s = k s"
| "rx_test k (Lit c # items) [] = False"
| "rx_test k (Lit c # items) (x # xs) = (x = c \<and> rx_test k items xs)"
| "rx_test k (AnyPlus # items) [] = False"
| "rx_test k (AnyPlus # items) (x # xs) =
     (\<not> line_terminator x \<and> (rx_test k items xs \<or> rx_test k (AnyPlus # items) xs))"
| "rx_test k (SegPlus # items) [] = False"
| "rx_test k (SegPlus # items) (x # xs) =
     (x \<noteq> CHR ''/'' \<and> (rx_test k items xs \<or> rx_test k (SegPlus # items) xs))"

text \<open>\<^verbatim>\<open>new RegExp("^" + regexPattern + "$")\<close>: nothing may follow the match.\<close>

definition exactRegex_test :: "rx_item list \<Rightarrow> string \<Rightarrow> bool" where
  "exactRegex_test items path = rx_test (\<lambda>r. r = []) items path"

text \<open>
  \<^verbatim>\<open>new RegExp("^" + regexPattern + "(/.*)?$")\<close>: after the match the path ends, or goes
  on with a slash and any characters that \<^verbatim>\<open>.\<close> matches.
\<close>

fun optional_tail :: "string \<Rightarrow> bool" where
  "optional_tail [] = True"
| "optional_tail (c # cs) = (c = CHR ''/'' \<and> list_all (\<lambda>x. \<not> line_terminator x) cs)"

definition prefixRegex_test :: "rx_item list \<Rightarrow> string \<Rightarrow> bool" where
  "prefixRegex_test items path = rx_test optional_tail items path"

text \<open>The predicate of the \<^verbatim>\<open>filter\<close> in \<^verbatim>\<open>#middlewaresOf\<close>, on the flattened path of a middleware.\<close>

definition middleware_applies :: "string \<Rightarrow> string \<Rightarrow> bool" where
  "middleware_applies mpath path =
     (if mpath = ''*'' then True
      else if exactRegex_test (regexPattern mpath) path then True
      else prefixRegex_test (regexPattern mpath) path)"

section \<open>Specificity order\<close>

text \<open>\<^verbatim>\<open>(a.path.match(/\*/g) || []).length\<close>: the number of stars.\<close>

definition count_wildcards :: "string \<Rightarrow> nat" where
  "count_wildcards p = length (filter (\<lambda>c. c = CHR ''*'') p)"

text \<open>
  \<^verbatim>\<open>(a.path.match(/:[^/]+/g) || []).length\<close>: the number of non-overlapping matches of a
  colon followed by at least one character other than a slash; a match runs up to the
  next slash and the search goes on behind it.
\<close>

function count_params :: "string \<Rightarrow> nat" where
  "count_params [] = 0"
| "count_params (c # cs) =
     (if c = CHR '':'' \<and> cs \<noteq> [] \<and> hd cs \<noteq> CHR ''/''
        then Suc (count_params (dropWhile (\<lambda>x. x \<noteq> CHR ''/'') cs))
      else count_params cs)"
  by pat_completeness auto
termination
  by (relation "measure length") (auto simp: length_dropWhile_le less_Suc_eq_le)

text \<open>\<^verbatim>\<open>a.path.split("/").length\<close>: one more than the number of slashes.\<close>

definition count_segments :: "string \<Rightarrow> nat" where
  "count_segments p = Suc (length (filter (\<lambda>c. c = CHR ''/'') p))"

text \<open>The comparison function handed to \<^verbatim>\<open>sort\<close>, with its six steps in the source's order.\<close>

definition compare_middlewares ::
  "('v, 's) flat_middleware \<Rightarrow> ('v, 's) flat_middleware \<Rightarrow> int" where
  "compare_middlewares a b =
     (if fm_path a = ''*'' then 1
      else if fm_path b = ''*'' then - 1
      else if count_wildcards (fm_path a) \<noteq> count_wildcards (fm_path b)
        then int (count_wildcards (fm_path a)) - int (count_wildcards (fm_path b))
      else if count_params (fm_path a) \<noteq> count_params (fm_path b)
        then int (count_params (fm_path a)) - int (count_params (fm_path b))
      else if count_segments (fm_path a) \<noteq> count_segments (fm_path b)
        then int (count_segments (fm_path b)) - int (count_segments (fm_path a))
      else if length (fm_path a) \<noteq> length (fm_path b)
        then int (length (fm_path b)) - int (length (fm_path a))
      else int (fm_order a) - int (fm_order b))"

text \<open>
  The comparison function is negative exactly when the first argument has the smaller
  sort key, in the lexicographic order of these six components, built from the counters
  of the comparison function.
\<close>

definition comparator_rank ::
  "('v, 's) flat_middleware \<Rightarrow> nat \<times> nat \<times> nat \<times> int \<times> int \<times> nat" where
  "comparator_rank m =
     (if fm_path m = ''*'' then (1, 0, 0, 0, 0, 0)
      else (0, count_wildcards (fm_path m), count_params (fm_path m),
            - int (count_segments (fm_path m)), - int (length (fm_path m)), fm_order m))"

text \<open>
  \<^verbatim>\<open>Array.prototype.sort\<close> is stable. It is modelled as the stable insertion sort that
  moves an element in front of one that came before it only when the comparison function,
  called on the later and the earlier element, is negative.
\<close>

fun sort_insert :: "('a \<Rightarrow> 'a \<Rightarrow> int) \<Rightarrow> 'a \<Rightarrow> 'a list \<Rightarrow> 'a list" where
  "sort_insert cmp x [] = [x]"
| "sort_insert cmp x (y # ys) =
     (if cmp y x < 0 then y # sort_insert cmp x ys else x # y # ys)"

definition array_sort :: "('a \<Rightarrow> 'a \<Rightarrow> int) \<Rightarrow> 'a list \<Rightarrow> 'a list" where
  "array_sort cmp xs = foldr (sort_insert cmp) xs []"

definition middlewaresOf :: "('v, 's) rest \<Rightarrow> string \<Rightarrow> ('v, 's) flat_middleware list" where
  "middlewaresOf app path =
     array_sort compare_middlewares
       (filter (\<lambda>m. middleware_applies (fm_path m) path) (middlewares_getter app))"


section \<open>The context's response builders and service accessor\<close>

text \<open>
  \<^verbatim>\<open>new Context(request, rest)\<close>: no response yet, an empty store, and the reference to
  the application.
\<close>

definition new_Context :: "raw_request \<Rightarrow> ('v, 's) rest \<Rightarrow> ('v, 's) Context" where
  "new_Context request app =
     \<lparr>ctx_request = request, ctx_response = None, ctx_state = Map.empty,
      ctx_rest = Some (service app)\<rparr>"

text \<open>
  The options of a builder, reduced to \<^verbatim>\<open>status\<close> and \<^verbatim>\<open>headers\<close>. An object spread
  \<^verbatim>\<open>{...a, ...b}\<close> keeps the keys of \<open>a\<close> and lets \<open>b\<close> overwrite or extend them. A status
  given by the caller is taken to be one the \<^verbatim>\<open>Response\<close> constructor accepts.
\<close>

record response_init =
  init_status :: "nat option"
  init_headers :: "(string \<times> string) list"

definition no_options :: response_init where
  "no_options = \<lparr>init_status = None, init_headers = []\<rparr>"

fun assign_key :: "string \<Rightarrow> 'b \<Rightarrow> (string \<times> 'b) list \<Rightarrow> (string \<times> 'b) list" where
  "assign_key k v [] = [(k, v)]"
| "assign_key k v (p # ps) = (if fst p = k then (k, v) # ps else p # assign_key k v ps)"

definition spread :: "(string \<times> 'b) list \<Rightarrow> (string \<times> 'b) list \<Rightarrow> (string \<times> 'b) list" where
  "spread a b = fold (\<lambda>kv acc. assign_key (fst kv) (snd kv) acc) b a"

text \<open>
  \<^verbatim>\<open>json(data, options = {})\<close> records and returns \<^verbatim>\<open>Response.json(data, {...options,
  headers: {'Content-Type': 'application/json', ...options.headers}})\<close>. The body of the
  response is the JSON text of \<open>data\<close>, kept as the value it serialises.
\<close>

definition Context_json ::
  "json \<Rightarrow> response_init \<Rightarrow> ('v, 's) Context \<Rightarrow> response \<times> ('v, 's) Context" where
  "Context_json data options c =
     (let r = \<lparr>status = (case init_status options of None \<Rightarrow> 200 | Some st \<Rightarrow> st),
               headers = spread [(''Content-Type'', ''application/json'')] (init_headers options),
               body = BodyJson data\<rparr>
      in (r, c\<lparr>ctx_response := Some r\<rparr>))"

text \<open>
  \<^verbatim>\<open>error(message, status = 500, details = {}, options = {})\<close> records and returns
  \<^verbatim>\<open>Response.json({error: {message, status, ...details}}, {status, ...options, headers: ...})\<close>.
\<close>

definition Context_error ::
  "string \<Rightarrow> nat \<Rightarrow> (string \<times> json) list \<Rightarrow> response_init \<Rightarrow> ('v, 's) Context
     \<Rightarrow> response \<times> ('v, 's) Context" where
  "Context_error message st details options c =
     (let r = \<lparr>status = (case init_status options of None \<Rightarrow> st | Some st' \<Rightarrow> st'),
               headers = spread [(''Content-Type'', ''application/json'')] (init_headers options),
               body = BodyJson (JObject [(''error'',
                        JObject (spread [(''message'', JString message),
                                         (''status'', JNumber (int st))] details))])\<rparr>
      in (r, c\<lparr>ctx_response := Some r\<rparr>))"

text \<open>
  \<^verbatim>\<open>get service() { return this.#rest?.service || null; }\<close>: with a \<^verbatim>\<open>null\<close> reference the
  optional chaining gives \<^verbatim>\<open>undefined\<close> and the result is \<^verbatim>\<open>null\<close>; otherwise the getter
  of the application runs first.
\<close>

definition Context_service :: "('v, 's) Context \<Rightarrow> thrown + 's option" where
  "Context_service c =
     (case ctx_rest c of
        None \<Rightarrow> Inr None
      | Some slot \<Rightarrow>
          (case slot of None \<Rightarrow> Inl (Error ''Service not set'') | Some s \<Rightarrow> Inr (Some s)))"

section \<open>Building and running the chain\<close>

text \<open>
  The loop of the getter \<^verbatim>\<open>routes\<close>:
  \<^verbatim>\<open>for (let i = handlers.length - 1; i >= 0; i--) { const handler = handlers[i];
  const currentNext = next; next = async (context) => await Promise.resolve(handler(context, currentNext)); }\<close>.
  \<open>chain_loop handlers n next\<close> is the loop with \<open>n\<close> iterations left, that is at
  \<open>i = n - 1\<close>.
\<close>

fun chain_loop ::
  "('v, 's) middleware_handler list \<Rightarrow> nat \<Rightarrow> ('v, 's) handler \<Rightarrow> ('v, 's) handler" where
  "chain_loop handlers 0 next = next"
| "chain_loop handlers (Suc i) next =
     chain_loop handlers i (\<lambda>context. (handlers ! i) context next)"

text \<open>
  \<^verbatim>\<open>const handlers = [...middlewares.map(m => m.middleware.handler)].reverse();
  let next = route.route.handler;\<close> and then the loop.
\<close>

definition build_chain ::
  "('v, 's) flat_middleware list \<Rightarrow> ('v, 's) route \<Rightarrow> ('v, 's) handler" where
  "build_chain mws route =
     (let handlers = rev (map (\<lambda>m. m_handler (fm_middleware m)) mws)
      in chain_loop handlers (length handlers) (r_handler route))"

text \<open>
  The response of the \<^verbatim>\<open>catch\<close> branch:
  \<^verbatim>\<open>new Response(JSON.stringify({error: "Internal Server Error", message: error.message}),
  {status: 500, headers: {"Content-Type": "application/json"}})\<close>.
  \<^verbatim>\<open>JSON.stringify\<close> leaves out a property whose value is \<^verbatim>\<open>undefined\<close>; the argument is
  the JSON value of \<^verbatim>\<open>error.message\<close>, or \<open>None\<close> when the property is left out.
\<close>

definition internal_error_response :: "json option \<Rightarrow> response" where
  "internal_error_response message =
     \<lparr>status = 500, headers = [(''Content-Type'', ''application/json'')],
      body = BodyJson (JObject ((''error'', JString ''Internal Server Error'')
               # (case message of None \<Rightarrow> [] | Some m \<Rightarrow> [(''message'', m)])))\<rparr>"

text \<open>
  The \<^verbatim>\<open>catch\<close> block of the dispatch function (\<^verbatim>\<open>console.error\<close> only logs): a recorded
  response wins; otherwise \<^verbatim>\<open>error.message\<close> is read and serialised. The read throws when
  the caught value is \<^verbatim>\<open>null\<close> or \<^verbatim>\<open>undefined\<close> or when the property cannot be read, and
  \<^verbatim>\<open>JSON.stringify\<close> throws on a message it cannot write; nothing catches these, so the
  promise of the dispatch function rejects. \<open>Inl\<close> is a rejected promise.
\<close>

definition dispatch_catch :: "thrown \<Rightarrow> ('v, 's) Context \<Rightarrow> thrown + response" where
  "dispatch_catch error c =
     (case ctx_response c of
        Some r \<Rightarrow> Inr r
      | None \<Rightarrow>
          (case error of
             Error m \<Rightarrow> Inr (internal_error_response (Some (JString m)))
           | Message j \<Rightarrow> Inr (internal_error_response (Some j))
           | NoMessage \<Rightarrow> Inr (internal_error_response None)
           | Nullish \<Rightarrow> Inl engine_type_error
           | Unreadable e \<Rightarrow> Inl e
           | Unserialisable e \<Rightarrow> Inl e))"

text \<open>
  The dispatch function stored in the table: a fresh context, the chain, and the
  \<^verbatim>\<open>try\<close>/\<^verbatim>\<open>catch\<close> around it. The \<^verbatim>\<open>throw new Error("No response set in context")\<close> of
  the \<^verbatim>\<open>try\<close> block is caught by the same \<^verbatim>\<open>catch\<close>.
\<close>

definition dispatch ::
  "('v, 's) handler \<Rightarrow> ('v, 's) rest \<Rightarrow> raw_request \<Rightarrow> thrown + response" where
  "dispatch next app request =
     (let context = new_Context request app
      in case next context of
           (Returned _, c) \<Rightarrow>
             (case ctx_response c of
                Some r \<Rightarrow> Inr r
              | None \<Rightarrow> dispatch_catch (Error ''No response set in context'') c)
         | (Threw error, c) \<Rightarrow> dispatch_catch error c)"

text \<open>
  The function the getter \<^verbatim>\<open>routes\<close> builds for a flattened route: the chain of the
  middlewares that apply to the route's path, and the dispatch function around it.
\<close>

definition route_dispatch ::
  "('v, 's) rest \<Rightarrow> ('v, 's) flat_route \<Rightarrow> raw_request \<Rightarrow> thrown + response" where
  "route_dispatch app route =
     (let middlewares = middlewaresOf app (fr_path route);
          next = build_chain middlewares (fr_route route)
      in dispatch next app)"

text \<open>
  The getter \<^verbatim>\<open>routes\<close>: \<^verbatim>\<open>const routes = {}\<close> and then, for each flattened route in order,
  \<^verbatim>\<open>routes[route.path] ??= {}\<close> and
  \<^verbatim>\<open>routes[route.path][route.method] = async request => ...\<close>.

  The table is an ordinary object, so the read \<^verbatim>\<open>routes[path]\<close> also finds what
  \<^verbatim>\<open>Object.prototype\<close> provides: the prototype itself under \<^verbatim>\<open>__proto__\<close>, its member functions
  under their names, and every property that an earlier assignment has put on the
  prototype. Such a value is not nullish, so \<^verbatim>\<open>??=\<close> creates no entry and the dispatch
  function becomes a property of that object. The objects that can come to hold dispatch
  functions are therefore the entry created for a path, \<^verbatim>\<open>Object.prototype\<close>, a member
  function of \<^verbatim>\<open>Object.prototype\<close>, and a dispatch function stored earlier (functions are
  objects; they are numbered in the order of their creation). The model follows one
  evaluation of the getter and starts from an \<^verbatim>\<open>Object.prototype\<close> that has its built-in
  members only.
\<close>

datatype table_object = Entry string | Object_prototype | Member string | Dispatch nat

definition prototype_members :: "string list" where
  "prototype_members =
     [''constructor'', ''hasOwnProperty'', ''isPrototypeOf'', ''propertyIsEnumerable'',
      ''toLocaleString'', ''toString'', ''valueOf'', ''__defineGetter__'', ''__defineSetter__'',
      ''__lookupGetter__'', ''__lookupSetter__'']"

text \<open>The method whose name a string is: the property names the assignments use.\<close>

definition method_named :: "string \<Rightarrow> http_method option" where
  "method_named name =
     map_of (map (\<lambda>m. (method_name m, m)) [GET, POST, PUT, DELETE, PATCH, OPTIONS]) name"

text \<open>
  The state of the table: the paths for which \<^verbatim>\<open>routes\<close> has an entry of its own, the
  properties (named by a method) that the assignments have put on each object, each a
  dispatch function with its number, and the number of dispatch functions created so far.
\<close>

record dispatch_table =
  own_paths :: "string set"
  held :: "table_object \<Rightarrow> http_method \<rightharpoonup> nat \<times> (raw_request \<Rightarrow> thrown + response)"
  created :: nat

definition empty_table :: dispatch_table where
  "empty_table = \<lparr>own_paths = {}, held = (\<lambda>obj. Map.empty), created = 0\<rparr>"

text \<open>
  The read \<^verbatim>\<open>routes[path]\<close>: an own entry first, then what the prototype provides;
  \<open>None\<close> is \<^verbatim>\<open>undefined\<close>.
\<close>

definition routes_property :: "dispatch_table \<Rightarrow> string \<Rightarrow> table_object option" where
  "routes_property tbl path =
     (if path \<in> own_paths tbl then Some (Entry path)
      else if path = ''__proto__'' then Some Object_prototype
      else if path \<in> set prototype_members then Some (Member path)
      else (case method_named path of
              None \<Rightarrow> None
            | Some m \<Rightarrow>
                (case held tbl Object_prototype m of
                   None \<Rightarrow> None
                 | Some (k, f) \<Rightarrow> Some (Dispatch k))))"

text \<open>
  The read \<^verbatim>\<open>obj[method]\<close>: a property of the object itself, or else one inherited from
  \<^verbatim>\<open>Object.prototype\<close>, which ends the prototype chain of every object here.
\<close>

definition object_property ::
  "dispatch_table \<Rightarrow> table_object \<Rightarrow> http_method
     \<Rightarrow> (nat \<times> (raw_request \<Rightarrow> thrown + response)) option" where
  "object_property tbl obj m =
     (case held tbl obj m of
        Some kf \<Rightarrow> Some kf
      | None \<Rightarrow> (if obj = Object_prototype then None else held tbl Object_prototype m))"

text \<open>One iteration of the \<^verbatim>\<open>forEach\<close>.\<close>

definition routes_step ::
  "('v, 's) rest \<Rightarrow> ('v, 's) flat_route \<Rightarrow> dispatch_table \<Rightarrow> dispatch_table" where
  "routes_step app route tbl =
     (let (obj, paths) =
            (case routes_property tbl (fr_path route) of
               Some obj \<Rightarrow> (obj, own_paths tbl)
             | None \<Rightarrow> (Entry (fr_path route), insert (fr_path route) (own_paths tbl)));
          fn = route_dispatch app route
      in \<lparr>own_paths = paths,
          held = (held tbl)(obj := (held tbl obj)(fr_method route \<mapsto> (created tbl, fn))),
          created = Suc (created tbl)\<rparr>)"

definition routes_getter :: "('v, 's) rest \<Rightarrow> dispatch_table" where
  "routes_getter app = fold (routes_step app) (getRoutes app) empty_table"

text \<open>
  The getter \<^verbatim>\<open>fetch\<close>:
  \<^verbatim>\<open>return async (request, server) => { return new Response("Not found", { status: 404 }); }\<close>.
\<close>

definition fetch :: "('v, 's) rest \<Rightarrow> raw_request \<Rightarrow> response" where
  "fetch app request = \<lparr>status = 404, headers = [], body = BodyText ''Not found''\<rparr>"


section \<open>Parsing the request body\<close>

text \<open>
  The readers \<^verbatim>\<open>json\<close>, \<^verbatim>\<open>text\<close> and \<^verbatim>\<open>formData\<close> of \<^verbatim>\<open>Request\<close> wrap the reader of the raw
  request in \<^verbatim>\<open>try { return await this.#raw.json(); } catch (err) { console.error(err);
  return null; }\<close>; \<open>None\<close> and \<open>JNull\<close> stand for \<^verbatim>\<open>null\<close>.
\<close>

definition Request_json :: "raw_request \<Rightarrow> json" where
  "Request_json req = (case raw_json req of Inl err \<Rightarrow> JNull | Inr v \<Rightarrow> v)"

definition Request_text :: "raw_request \<Rightarrow> string option" where
  "Request_text req = (case raw_text req of Inl err \<Rightarrow> None | Inr t \<Rightarrow> Some t)"

definition Request_formData :: "raw_request \<Rightarrow> (string \<times> string) list option" where
  "Request_formData req = (case raw_formData req of Inl err \<Rightarrow> None | Inr fd \<Rightarrow> Some fd)"

text \<open>\<^verbatim>\<open>toLowerCase\<close> on the letters of ASCII, and \<^verbatim>\<open>includes\<close>.\<close>

definition lower_char :: "char \<Rightarrow> char" where
  "lower_char c =
     (case map_of (zip ''ABCDEFGHIJKLMNOPQRSTUVWXYZ'' ''abcdefghijklmnopqrstuvwxyz'') c of
        None \<Rightarrow> c | Some l \<Rightarrow> l)"

definition toLowerCase :: "string \<Rightarrow> string" where
  "toLowerCase s = map lower_char s"

fun string_includes :: "string \<Rightarrow> string \<Rightarrow> bool" where
  "string_includes [] sub = (sub = [])"
| "string_includes (c # cs) sub = (take (length sub) (c # cs) = sub \<or> string_includes cs sub)"

text \<open>\<^verbatim>\<open>key.split(".")\<close>: the pieces between the dots, at least one.\<close>

fun split_dot :: "string \<Rightarrow> string list" where
  "split_dot [] = [[]]"
| "split_dot (c # cs) =
     (if c = CHR ''.'' then [] # split_dot cs
      else (case split_dot cs of [] \<Rightarrow> [[c]] | s # ss \<Rightarrow> (c # s) # ss))"

text \<open>
  The body of the loop over the entries, for one entry:
  \<^verbatim>\<open>let current = data; for (let i = 0; i < sections.length - 1; i++) {
  if (!current[sections[i]]) { current[sections[i]] = {}; } current = current[sections[i]]; }
  current[sections[sections.length - 1]] = value;\<close>.
  The values of the entries are strings, so \<open>current\<close> is an object or a string. A missing
  property and the empty string are falsy and get replaced by a new object. Once \<open>current\<close>
  is a non-empty string the walk ends in an assignment to a property of a primitive,
  which is a \<^verbatim>\<open>TypeError\<close> in strict code (a module is strict code). Keys are taken not to
  name a member of \<^verbatim>\<open>Object.prototype\<close>.
\<close>

fun assign_sections :: "string list \<Rightarrow> string \<Rightarrow> (string \<times> json) list \<Rightarrow> thrown + (string \<times> json) list" where
  "assign_sections [] v current = Inr current"
| "assign_sections [k] v current = Inr (assign_key k (JString v) current)"
| "assign_sections (k # k' # ks) v current =
     (case map_of current k of
        Some (JObject sub) \<Rightarrow>
          (case assign_sections (k' # ks) v sub of
             Inl e \<Rightarrow> Inl e
           | Inr sub' \<Rightarrow> Inr (assign_key k (JObject sub') current))
      | Some (JString s) \<Rightarrow>
          (if s = [] then
             (case assign_sections (k' # ks) v [] of
                Inl e \<Rightarrow> Inl e
              | Inr sub' \<Rightarrow> Inr (assign_key k (JObject sub') current))
           else Inl engine_type_error)
      | _ \<Rightarrow>
          (case assign_sections (k' # ks) v [] of
             Inl e \<Rightarrow> Inl e
           | Inr sub' \<Rightarrow> Inr (assign_key k (JObject sub') current)))"

fun assign_entries :: "(string \<times> string) list \<Rightarrow> (string \<times> json) list \<Rightarrow> thrown + (string \<times> json) list" where
  "assign_entries [] data = Inr data"
| "assign_entries (kv # rest) data =
     (case assign_sections (split_dot (fst kv)) (snd kv) data of
        Inl e \<Rightarrow> Inl e
      | Inr data' \<Rightarrow> assign_entries rest data')"

text \<open>
  \<^verbatim>\<open>parse\<close>. \<open>URLSearchParams\<close> is the host's parser of a query string into its entries;
  it is a parameter. The constructor turns the argument \<^verbatim>\<open>null\<close> into the string
  \<^verbatim>\<open>"null"\<close>. In the branch of \<^verbatim>\<open>multipart/form-data\<close> the result of \<^verbatim>\<open>formData()\<close> is used
  as it is: \<^verbatim>\<open>fd.entries()\<close> on \<^verbatim>\<open>null\<close> is a \<^verbatim>\<open>TypeError\<close>. \<open>Inl\<close> is a rejected promise.
\<close>

definition parse :: "(string \<Rightarrow> (string \<times> string) list) \<Rightarrow> raw_request \<Rightarrow> thrown + json" where
  "parse URLSearchParams req =
     (let contentType = (case raw_content_type req of None \<Rightarrow> [] | Some ct \<Rightarrow> toLowerCase ct)
      in if contentType \<noteq> [] then
           if string_includes contentType ''application/json'' then Inr (Request_json req)
           else if string_includes contentType ''application/x-www-form-urlencoded'' then
             (let fd = Request_text req;
                  data = URLSearchParams (case fd of None \<Rightarrow> ''null'' | Some t \<Rightarrow> t)
              in case assign_entries data [] of Inl e \<Rightarrow> Inl e | Inr parsedData \<Rightarrow> Inr (JObject parsedData))
           else if string_includes contentType ''multipart/form-data'' then
             (case Request_formData req of
                None \<Rightarrow> Inl engine_type_error
              | Some fd \<Rightarrow>
                  (case assign_entries fd [] of Inl e \<Rightarrow> Inl e | Inr data \<Rightarrow> Inr (JObject data)))
           else if string_includes contentType ''text/plain'' then
             Inr (case Request_text req of None \<Rightarrow> JNull | Some t \<Rightarrow> JString t)
           else Inr JNull
         else Inr JNull)"

section \<open>Reading the table, and the applications of the examples\<close>

text \<open>
  \<^verbatim>\<open>routes[path][method]\<close>: the dispatch function the table holds for a path and a method,
  \<open>None\<close> when either read gives \<^verbatim>\<open>undefined\<close>.
\<close>

definition table_lookup ::
  "dispatch_table \<Rightarrow> string \<Rightarrow> http_method \<Rightarrow> (raw_request \<Rightarrow> thrown + response) option" where
  "table_lookup tbl path m =
     (case routes_property tbl path of
        None \<Rightarrow> None
      | Some obj \<Rightarrow> map_option snd (object_property tbl obj m))"

text \<open>A \<^verbatim>\<open>GET\<close> request without a body.\<close>

definition get_request :: "string \<Rightarrow> raw_request" where
  "get_request p =
     \<lparr>raw_method = ''GET'', raw_pathname = p, raw_content_type = None,
      raw_json = Inl (Error ''Unexpected end of JSON input''), raw_text = Inr [],
      raw_formData = Inl engine_type_error\<rparr>"

text \<open>
  The application of the README's first example:
  \<^verbatim>\<open>app.get('/', (c) => c.json({ message: 'Hello' }))\<close>.
\<close>

definition hello_handler :: "(unit, unit) handler" where
  "hello_handler c =
     (let (r, c') = Context_json (JObject [(''message'', JString ''Hello'')]) no_options c
      in (Returned (Some r), c'))"

definition hello_app :: "(unit, unit) rest" where
  "hello_app = Rest [Route GET ''/'' hello_handler] [] [] None"

text \<open>A request announcing \<^verbatim>\<open>multipart/form-data\<close> whose body is not form data.\<close>

definition multipart_request :: raw_request where
  "multipart_request =
     \<lparr>raw_method = ''POST'', raw_pathname = ''/upload'',
      raw_content_type = Some ''multipart/form-data; boundary=x'',
      raw_json = Inl (Error ''Unexpected token''), raw_text = Inr ''not a form'',
      raw_formData = Inl (Error ''FormData parse error'')\<rparr>"

text \<open>A handler that answers with a JSON string, to tell handlers apart by their answer.\<close>

definition text_handler :: "string \<Rightarrow> (unit, unit) handler" where
  "text_handler t c =
     (let (r, c') = Context_json (JString t) no_options c in (Returned (Some r), c'))"

text \<open>\<^verbatim>\<open>app.get("/a", first)\<close>, and then \<^verbatim>\<open>app.get("/a/", second)\<close> on the same application.\<close>

definition app_a :: "(unit, unit) rest" where
  "app_a = Rest [Route GET ''/a'' (text_handler ''first'')] [] [] None"

definition app_a_slash :: "(unit, unit) rest" where
  "app_a_slash =
     Rest [Route GET ''/a'' (text_handler ''first''), Route GET ''/a/'' (text_handler ''second'')]
          [] [] None"

definition app_x :: "(unit, unit) rest" where
  "app_x = Rest [Route GET ''/x'' (text_handler ''A'')] [] [] None"

definition app_x_y :: "(unit, unit) rest" where
  "app_x_y =
     Rest [Route GET ''/x'' (text_handler ''A''), Route POST ''/y'' (text_handler ''C'')] [] [] None"

text \<open>
  The flattened route that comes last among those with a given path and method: the one
  whose assignment to \<^verbatim>\<open>routes[path][method]\<close> is the last to run.
\<close>

text \<open>
  As long as nothing has been put on \<^verbatim>\<open>Object.prototype\<close>, the dispatch functions of a
  path other than \<^verbatim>\<open>__proto__\<close> are held by one object: the member function of that name,
  or else the entry of the path.
\<close>

definition holder :: "string \<Rightarrow> table_object" where
  "holder path = (if path \<in> set prototype_members then Member path else Entry path)"


text \<open>
  Two applications with a route at the path \<^verbatim>\<open>__proto__\<close> (registered as
  \<^verbatim>\<open>app.get("__proto__", ...)\<close>): one with a route for another method at \<^verbatim>\<open>/o\<close>, one with a
  route at the path \<^verbatim>\<open>GET\<close> between two routes at \<^verbatim>\<open>__proto__\<close>.
\<close>

definition proto_app :: "(unit, unit) rest" where
  "proto_app =
     Rest [Route GET ''__proto__'' (text_handler ''polluted''),
           Route POST ''/o'' (text_handler ''posted'')] [] [] None"

definition shadow_app :: "(unit, unit) rest" where
  "shadow_app =
     Rest [Route GET ''__proto__'' (text_handler ''first''),
           Route GET ''GET'' (text_handler ''wanted''),
           Route GET ''__proto__'' (text_handler ''second'')] [] [] None"

definition last_route ::
  "string \<Rightarrow> http_method \<Rightarrow> ('v, 's) flat_route list \<Rightarrow> ('v, 's) flat_route option" where
  "last_route p m rs = find (\<lambda>r. fr_path r = p \<and> fr_method r = m) (rev rs)"

text \<open>
  A thrown value the \<^verbatim>\<open>catch\<close> block can report: it is neither \<^verbatim>\<open>null\<close> nor \<^verbatim>\<open>undefined\<close>,
  its property \<^verbatim>\<open>message\<close> can be read, and \<^verbatim>\<open>JSON.stringify\<close> accepts what is read.
\<close>

fun reportable :: "thrown \<Rightarrow> bool" where
  "reportable (Error m) = True"
| "reportable (Message j) = True"
| "reportable NoMessage = True"
| "reportable Nullish = False"
| "reportable (Unreadable e) = False"
| "reportable (Unserialisable e) = False"

text \<open>
  The shape \<^verbatim>\<open>{error: {message, status, ...details}}\<close> of the spec: a JSON object whose
  property \<^verbatim>\<open>error\<close> is an object that has the properties \<^verbatim>\<open>message\<close> and \<^verbatim>\<open>status\<close>.
\<close>

fun error_shaped :: "body \<Rightarrow> bool" where
  "error_shaped (BodyJson (JObject props)) =
     (case map_of props ''error'' of
        Some (JObject members) \<Rightarrow>
          map_of members ''message'' \<noteq> None \<and> map_of members ''status'' \<noteq> None
      | _ \<Rightarrow> False)"
| "error_shaped _ = False"

text \<open>A handler that throws, and one that records an error response and then throws.\<close>

definition boom_handler :: "(unit, unit) handler" where
  "boom_handler c = (Threw (Error ''boom''), c)"

definition teapot_then_boom :: "(unit, unit) handler" where
  "teapot_then_boom c =
     (let (r, c') = Context_error ''teapot'' 418 [] no_options c in (Threw (Error ''boom''), c'))"


definition teapot_app :: "(unit, unit) rest" where
  "teapot_app = Rest [Route GET ''/t'' teapot_then_boom] [] [] None"

text \<open>
  A middleware that only calls \<^verbatim>\<open>next\<close>, a child with two middlewares, a child with one,
  a parent with one middleware of its own and the first child mounted, and a parent that
  mounts both children at \<^verbatim>\<open>/\<close>.
\<close>

definition pass_through :: "(unit, unit) middleware_handler" where
  "pass_through c next = next c"

definition first_child :: "(unit, unit) rest" where
  "first_child = Rest [] [Middleware ''/:a'' pass_through, Middleware ''/:b'' pass_through] [] None"

definition second_child :: "(unit, unit) rest" where
  "second_child = Rest [] [Middleware ''/:c'' pass_through] [] None"

definition parent_with_child :: "(unit, unit) rest" where
  "parent_with_child = Rest [] [Middleware ''/p'' pass_through] [(''/api'', first_child)] None"

definition two_children :: "(unit, unit) rest" where
  "two_children =
     Rest [Route GET ''/x'' (text_handler ''x'')] [] [(''/'', first_child), (''/'', second_child)] None"

section \<open>What a pattern matches, in the words of the spec\<close>

text \<open>
  The strings a star stands for: one or more characters, slashes included, line
  terminators excluded. The strings a parameter stands for: one or more characters other
  than the slash, that is, one non-empty path segment or a part of one.
\<close>

definition wildcard_strings :: "string set" where
  "wildcard_strings = {w. w \<noteq> [] \<and> list_all (\<lambda>x. \<not> line_terminator x) w}"

definition parameter_strings :: "string set" where
  "parameter_strings = {w. w \<noteq> [] \<and> list_all (\<lambda>x. x \<noteq> CHR ''/'') w}"

definition followed :: "string set \<Rightarrow> string set \<Rightarrow> string set" where
  "followed A B = {a @ b |a b. a \<in> A \<and> b \<in> B}"

text \<open>
  The pattern with its parameters and wildcards resolved, read off the pattern itself: a
  star is a wildcard, a colon with a name of word characters behind it is a parameter
  (the name is the longest such run), and every other character stands for itself.
\<close>

function pattern_strings :: "string \<Rightarrow> string set" where
  "pattern_strings [] = {[]}"
| "pattern_strings (c # cs) =
     (if c = CHR ''*'' then followed wildcard_strings (pattern_strings cs)
      else if c = CHR '':'' \<and> takeWhile word_char cs \<noteq> []
        then followed parameter_strings (pattern_strings (dropWhile word_char cs))
      else followed {[c]} (pattern_strings cs))"
  by pat_completeness auto
termination
  by (relation "measure length") (auto simp: length_dropWhile_le less_Suc_eq_le)

text \<open>
  What may follow the resolved pattern in a path the middleware applies to: nothing, or a
  slash and a remainder without line terminators.
\<close>

definition followed_by_slash :: "string \<Rightarrow> bool" where
  "followed_by_slash r \<longleftrightarrow>
     r = [] \<or> (\<exists>t. r = CHR ''/'' # t \<and> list_all (\<lambda>x. \<not> line_terminator x) t)"

text \<open>
  Between the two stands the meaning of the items of the regular expression: the strings
  an item matches, and the strings a sequence of items matches piece by piece.
\<close>

fun item_matches :: "rx_item \<Rightarrow> string \<Rightarrow> bool" where
  "item_matches (Lit c) w = (w = [c])"
| "item_matches AnyPlus w = (w \<noteq> [] \<and> list_all (\<lambda>x. \<not> line_terminator x) w)"
| "item_matches SegPlus w = (w \<noteq> [] \<and> list_all (\<lambda>x. x \<noteq> CHR ''/'') w)"

fun resolves :: "rx_item list \<Rightarrow> string \<Rightarrow> bool" where
  "resolves [] q = (q = [])"
| "resolves (item # items) q = (\<exists>w q'. q = w @ q' \<and> item_matches item w \<and> resolves items q')"

section \<open>The specificity order and the onion, in the words of the spec\<close>

text \<open>
  The criteria of the order, each read off the pattern: the occurrences of the star; the
  occurrences of a parameter \<^verbatim>\<open>:name\<close>, which are the parameters that matching resolves;
  the segments the pattern falls into when it is split at its slashes.
\<close>

definition wildcard_occurrences :: "string \<Rightarrow> nat" where
  "wildcard_occurrences p = count_list p CHR ''*''"

definition param_occurrences :: "string \<Rightarrow> nat" where
  "param_occurrences p = count_list (regexPattern p) SegPlus"

fun split_slash :: "string \<Rightarrow> string list" where
  "split_slash [] = [[]]"
| "split_slash (c # cs) =
     (if c = CHR ''/'' then [] # split_slash cs
      else (c # hd (split_slash cs)) # tl (split_slash cs))"

definition path_segments :: "string \<Rightarrow> nat" where
  "path_segments p = length (split_slash p)"

text \<open>
  The rank of a flattened middleware; a smaller rank (in the lexicographic order of the
  six components, so that the first criterion that differs decides) is more specific.
  The pattern \<^verbatim>\<open>*\<close> alone is least specific; otherwise fewer occurrences of the star, then
  fewer occurrences of a parameter, then more segments, then a longer pattern, then an
  earlier ordinal make a middleware more specific.
\<close>

definition specificity_rank ::
  "('v, 's) flat_middleware \<Rightarrow> nat \<times> nat \<times> nat \<times> int \<times> int \<times> nat" where
  "specificity_rank m =
     (if fm_path m = ''*'' then (1, 0, 0, 0, 0, 0)
      else (0, wildcard_occurrences (fm_path m), param_occurrences (fm_path m),
            - int (path_segments (fm_path m)), - int (length (fm_path m)), fm_order m))"

text \<open>
  A pattern writes its parameters plainly when every colon that has a character other
  than the slash behind it is followed by word characters only, up to the next slash or
  the end of the pattern: \<^verbatim>\<open>/users/:id\<close> and \<^verbatim>\<open>/v:major/x\<close> do, \<^verbatim>\<open>/key:-1\<close> and \<^verbatim>\<open>/:a-:b\<close> do
  not.
\<close>

function plain_parameters :: "string \<Rightarrow> bool" where
  "plain_parameters [] = True"
| "plain_parameters (c # cs) =
     (if c = CHR '':'' \<and> cs \<noteq> [] \<and> hd cs \<noteq> CHR ''/''
        then list_all word_char (takeWhile (\<lambda>x. x \<noteq> CHR ''/'') cs)
             \<and> plain_parameters (dropWhile (\<lambda>x. x \<noteq> CHR ''/'') cs)
      else plain_parameters cs)"
  by pat_completeness auto
termination
  by (relation "measure length") (auto simp: length_dropWhile_le less_Suc_eq_le)

text \<open>
  The onion: \<open>onion [m1, ..., mn] h\<close> is the handler in which \<open>m1\<close> is the outermost wrapper.
  \<open>m1\<close> is called first and gets as \<^verbatim>\<open>next\<close> the onion of the remaining middlewares around
  \<open>h\<close>, so whatever \<open>m1\<close> does before calling \<^verbatim>\<open>next\<close> precedes, and whatever it does after
  \<^verbatim>\<open>next\<close> has returned follows, all that \<open>m2\<close>, ..., \<open>mn\<close> and \<open>h\<close> do.
\<close>

fun onion :: "('v, 's) middleware_handler list \<Rightarrow> ('v, 's) handler \<Rightarrow> ('v, 's) handler" where
  "onion [] h = h"
| "onion (m # ms) h = (\<lambda>c. m c (onion ms h))"

text \<open>
  The scenario of the spec: a middleware at \<^verbatim>\<open>*\<close> and one at \<^verbatim>\<open>/users/*\<close>, and the route
  \<^verbatim>\<open>GET /users/1\<close>. Each middleware appends a line to the list stored under the key
  \<^verbatim>\<open>trace\<close> of the context before it calls \<^verbatim>\<open>next\<close> and after \<^verbatim>\<open>next\<close> has returned; the
  handler appends a line and answers.
\<close>

definition log_trace :: "string \<Rightarrow> (string list, unit) Context \<Rightarrow> (string list, unit) Context" where
  "log_trace s c =
     c\<lparr>ctx_state := (ctx_state c)(''trace'' \<mapsto>
          (case ctx_state c ''trace'' of None \<Rightarrow> [] | Some t \<Rightarrow> t) @ [s])\<rparr>"

definition tracing_middleware :: "string \<Rightarrow> (string list, unit) middleware_handler" where
  "tracing_middleware name c next =
     (let (out, c') = next (log_trace (name @ '' before'') c)
      in (out, log_trace (name @ '' after'') c'))"

definition traced_handler :: "(string list, unit) handler" where
  "traced_handler c =
     (let (r, c') = Context_json (JObject [(''id'', JString ''1'')]) no_options (log_trace ''handler'' c)
      in (Returned (Some r), c'))"

definition traced_app :: "(string list, unit) rest" where
  "traced_app =
     Rest [Route GET ''/users/1'' traced_handler]
          [Middleware ''*'' (tracing_middleware ''outer''),
           Middleware ''/users/*'' (tracing_middleware ''inner'')] [] None"

text \<open>
  Two applications whose patterns do not write their parameters plainly:
  \<^verbatim>\<open>app.use('/key:-1', literal); app.use('/:identifier', parameter); app.get('/key:-1', h)\<close>
  and \<^verbatim>\<open>app.use('/:a', one); app.use('/:a-:b', two); app.get('/x-y', h)\<close>.
\<close>

definition key_app :: "(string list, unit) rest" where
  "key_app =
     Rest [Route GET ''/key:-1'' traced_handler]
          [Middleware ''/key:-1'' (tracing_middleware ''literal''),
           Middleware ''/:identifier'' (tracing_middleware ''parameter'')] [] None"

definition dash_app :: "(string list, unit) rest" where
  "dash_app =
     Rest [Route GET ''/x-y'' traced_handler]
          [Middleware ''/:a'' (tracing_middleware ''one''),
           Middleware ''/:a-:b'' (tracing_middleware ''two'')] [] None"

section \<open>Properties\<close>


subsection \<open>Path normalisation\<close>

text \<open>
  Claim C6 (path normalisation is idempotent, and the root path stays \<^verbatim>\<open>/\<close>). The code
  does otherwise on both counts. The replacement of \<^verbatim>\<open>//\<close> looks at each pair of slashes
  once, so three slashes become two, and normalising the result again changes it once
  more. The path expression of \<^verbatim>\<open>getRoutes\<close> has no fallback to \<^verbatim>\<open>"/"\<close>, so the route
  registered at \<^verbatim>\<open>/\<close> is flattened to the empty path, whereas \<open>normalizePath\<close> keeps the
  root.
\<close>

theorem normalize_not_idempotent:
  "normalizePath ''///a'' = ''//a'' \<and> normalizePath (normalizePath ''///a'') = ''/a''
   \<and> route_path [] ''///a'' = ''//a'' \<and> route_path [] (route_path [] ''///a'') = ''/a''
   \<and> route_path [] ''/'' = [] \<and> normalizePath ''/'' = ''/''"
  by (simp add: normalizePath_def route_path_def strip_trailing_slash_def)

subsection \<open>The entry point\<close>

lemma middlewaresOf_no_middlewares [simp]:
  "middlewaresOf (Rest rs [] [] sv) p = []"
  by (simp add: middlewaresOf_def array_sort_def)

text \<open>
  Claim C3 (\<^verbatim>\<open>fetch\<close> on \<^verbatim>\<open>GET /\<close> answers 200 with the handler's JSON). The registration
  of the README's example succeeds, but \<^verbatim>\<open>fetch\<close> does not consult the routes: it answers
  404 with the text \<^verbatim>\<open>Not found\<close>. The response the claim describes is what the dispatch
  function of the table returns; the table holds it under the empty path, not under \<^verbatim>\<open>/\<close>.
\<close>

theorem fetch_ignores_routes:
  "register GET ''/'' hello_handler new_Rest = Inr hello_app
   \<and> fetch hello_app (get_request ''/'')
       = \<lparr>status = 404, headers = [], body = BodyText ''Not found''\<rparr>
   \<and> table_lookup (routes_getter hello_app) ''/'' GET = None
   \<and> map_option (\<lambda>f. f (get_request ''/'')) (table_lookup (routes_getter hello_app) [] GET)
       = Some (Inr \<lparr>status = 200, headers = [(''Content-Type'', ''application/json'')],
                    body = BodyJson (JObject [(''message'', JString ''Hello'')])\<rparr>)"
  by (simp add: register_def new_Route_def addRoute_def new_Rest_def hello_app_def fetch_def
      table_lookup_def routes_getter_def routes_step_def routes_property_def object_property_def
      empty_table_def prototype_members_def method_named_def route_dispatch_def
      route_path_def strip_trailing_slash_def
      build_chain_def dispatch_def new_Context_def hello_handler_def Context_json_def
      no_options_def spread_def Let_def)

subsection \<open>Parsing the body\<close>

text \<open>
  Claim C8 (\<^verbatim>\<open>parse\<close> never propagates an exception, also when reading form data fails).
  For a request that announces \<^verbatim>\<open>multipart/form-data\<close> and whose form data cannot be read,
  \<^verbatim>\<open>formData()\<close> gives \<^verbatim>\<open>null\<close> as promised, and \<^verbatim>\<open>parse\<close> then calls \<^verbatim>\<open>entries\<close> on it: the
  promise of \<^verbatim>\<open>parse\<close> rejects with a \<^verbatim>\<open>TypeError\<close>.
\<close>

theorem parse_multipart_rejects:
  "Request_formData multipart_request = None
   \<and> parse URLSearchParams multipart_request = Inl engine_type_error"
  by (simp add: parse_def multipart_request_def Request_formData_def toLowerCase_def lower_char_def)

subsection \<open>The service\<close>

text \<open>
  Claim C9: on an application whose service has not been set, reading \<^verbatim>\<open>service\<close> throws
  the error \<^verbatim>\<open>Service not set\<close>, and so does the accessor \<^verbatim>\<open>service\<close> of a context created
  for that application: the fallback to \<^verbatim>\<open>null\<close> is never reached.
\<close>

theorem service_not_set:
  "service app = None \<Longrightarrow>
     get_service app = Inl (Error ''Service not set'')
     \<and> Context_service (new_Context request app) = Inl (Error ''Service not set'')"
  by (simp add: get_service_def Context_service_def new_Context_def)

theorem service_not_set_witness:
  "service (new_Rest :: (unit, unit) rest) = None
   \<and> get_service (new_Rest :: (unit, unit) rest) = Inl (Error ''Service not set'')
   \<and> Context_service (new_Context (get_request ''/'') (new_Rest :: (unit, unit) rest))
       = Inl (Error ''Service not set'')"
proof -
  have h: "service (new_Rest :: (unit, unit) rest) = None" by (simp add: new_Rest_def)
  show ?thesis using h service_not_set [OF h, of "get_request ''/''"] by simp
qed

subsection \<open>Duplicate routes\<close>

text \<open>
  Claim C5 (a second registration of the same method and normalised path fails, also for
  a trailing-slash variant). As stated it does not hold: \<^verbatim>\<open>#addRoute\<close> compares the path
  strings as given, so \<^verbatim>\<open>GET /a/\<close> after \<^verbatim>\<open>GET /a\<close> is accepted, and both routes are flattened
  to the path \<^verbatim>\<open>/a\<close>.
\<close>

theorem trailing_slash_variant_is_registered:
  "register GET ''/a'' (text_handler ''first'') new_Rest = Inr app_a
   \<and> register GET ''/a/'' (text_handler ''second'') app_a = Inr app_a_slash
   \<and> map fr_path (getRoutes app_a_slash) = [''/a'', ''/a'']"
  by (simp add: register_def new_Route_def addRoute_def new_Rest_def app_a_def app_a_slash_def
      route_path_def strip_trailing_slash_def)

lemma getRoutes_mount:
  "getRoutes (mount q child app) =
     getRoutes app @ map (\<lambda>r. \<lparr>fr_route = fr_route r, fr_path = route_path (mount_prefix q) (fr_path r),
                                 fr_method = fr_method r\<rparr>) (getRoutes child)"
  by (cases app) (simp add: mount_def Let_def)

lemma register_Inr:
  "register m p h app = Inr app' \<longleftrightarrow>
     p \<noteq> [] \<and> find (\<lambda>r. r_method r = m \<and> r_path r = p) (routes app) = None
     \<and> app' = Rest (routes app @ [Route m p h]) (middlewares app) (mounts app) (service app)"
  by (auto simp: register_def new_Route_def addRoute_def split: option.splits)

lemma own_route_flattened:
  "Route m p h \<in> set (routes app) \<Longrightarrow>
     \<lparr>fr_route = Route m p h, fr_path = route_path [] p, fr_method = m\<rparr> \<in> set (getRoutes app)"
  by (cases app) force

lemma registered_paths_nonempty:
  "register m p h a = Inr a' \<Longrightarrow> list_all (\<lambda>r. r_path r \<noteq> []) (routes a) \<Longrightarrow>
     list_all (\<lambda>r. r_path r \<noteq> []) (routes a')"
  by (auto simp: register_Inr)

text \<open>
  Claim C5, amended: whenever the table of an application holds a route for a method and
  a path string (a non-empty one, as every registered path is), registering the same
  method and the same path string on that application fails with the error
  \<^verbatim>\<open>Route already exists\<close>, whatever was registered in between; on any other application
  that has no route with that method and path string the registration succeeds, and
  when both applications are mounted afterwards, each route is among the flattened routes
  under its own mount prefix.
\<close>

theorem duplicate_route_same_string:
  assumes "Route m p h \<in> set (routes a)" and "p \<noteq> []"
  shows "register m p h' a = Inl (Error (''Route already exists: '' @ method_name m @ '' '' @ p))
    \<and> (find (\<lambda>r. r_method r = m \<and> r_path r = p) (routes b) = None \<longrightarrow>
        (\<exists>b'. register m p h' b = Inr b'
           \<and> \<lparr>fr_route = Route m p h, fr_path = route_path (mount_prefix q1) (route_path [] p),
               fr_method = m\<rparr> \<in> set (getRoutes (mount q2 b' (mount q1 a parent)))
           \<and> \<lparr>fr_route = Route m p h', fr_path = route_path (mount_prefix q2) (route_path [] p),
               fr_method = m\<rparr> \<in> set (getRoutes (mount q2 b' (mount q1 a parent)))))"
proof -
  note p = assms(2)
  from assms(1) have "find (\<lambda>r. r_method r = m \<and> r_path r = p) (routes a) \<noteq> None"
    unfolding find_None_iff by force
  then have dup: "register m p h' a = Inl (Error (''Route already exists: '' @ method_name m @ '' '' @ p))"
    using p by (auto simp: register_def new_Route_def addRoute_def split: option.splits)
  have fresh: "\<exists>b'. register m p h' b = Inr b'
           \<and> \<lparr>fr_route = Route m p h, fr_path = route_path (mount_prefix q1) (route_path [] p),
               fr_method = m\<rparr> \<in> set (getRoutes (mount q2 b' (mount q1 a parent)))
           \<and> \<lparr>fr_route = Route m p h', fr_path = route_path (mount_prefix q2) (route_path [] p),
               fr_method = m\<rparr> \<in> set (getRoutes (mount q2 b' (mount q1 a parent)))"
    if none: "find (\<lambda>r. r_method r = m \<and> r_path r = p) (routes b) = None"
  proof -
    define b' where "b' = Rest (routes b @ [Route m p h']) (middlewares b) (mounts b) (service b)"
    have reg: "register m p h' b = Inr b'"
      using p none by (simp add: register_Inr b'_def)
    have ra: "\<lparr>fr_route = Route m p h, fr_path = route_path [] p, fr_method = m\<rparr> \<in> set (getRoutes a)"
      by (rule own_route_flattened) (rule assms(1))
    have rb: "\<lparr>fr_route = Route m p h', fr_path = route_path [] p, fr_method = m\<rparr> \<in> set (getRoutes b')"
      by (rule own_route_flattened) (simp add: b'_def)
    have ia: "\<lparr>fr_route = Route m p h, fr_path = route_path (mount_prefix q1) (route_path [] p),
               fr_method = m\<rparr> \<in> set (getRoutes (mount q2 b' (mount q1 a parent)))"
      using ra by (force simp: getRoutes_mount)
    have ib: "\<lparr>fr_route = Route m p h', fr_path = route_path (mount_prefix q2) (route_path [] p),
               fr_method = m\<rparr> \<in> set (getRoutes (mount q2 b' (mount q1 a parent)))"
      using rb by (force simp: getRoutes_mount)
    from reg ia ib show ?thesis by blast
  qed
  from dup fresh show ?thesis by blast
qed

theorem duplicate_route_same_string_witness:
  "register GET ''/x'' (text_handler ''A'') new_Rest = Inr app_x
   \<and> register POST ''/y'' (text_handler ''C'') app_x = Inr app_x_y
   \<and> Route GET ''/x'' (text_handler ''A'') \<in> set (routes app_x_y)
   \<and> register GET ''/x'' (text_handler ''B'') app_x_y = Inl (Error ''Route already exists: GET /x'')
   \<and> (\<exists>b'. register GET ''/x'' (text_handler ''B'') new_Rest = Inr b'
         \<and> \<lparr>fr_route = Route GET ''/x'' (text_handler ''A''), fr_path = ''/one/x'', fr_method = GET\<rparr>
              \<in> set (getRoutes (mount ''/two'' b' (mount ''/one'' app_x_y new_Rest)))
         \<and> \<lparr>fr_route = Route GET ''/x'' (text_handler ''B''), fr_path = ''/two/x'', fr_method = GET\<rparr>
              \<in> set (getRoutes (mount ''/two'' b' (mount ''/one'' app_x_y new_Rest))))"
proof -
  have h: "register GET ''/x'' (text_handler ''A'') (new_Rest :: (unit, unit) rest) = Inr app_x"
    by (simp add: register_def new_Route_def addRoute_def new_Rest_def app_x_def)
  have h2: "register POST ''/y'' (text_handler ''C'') app_x = Inr app_x_y"
    by (simp add: register_def new_Route_def addRoute_def app_x_def app_x_y_def)
  have r: "Route GET ''/x'' (text_handler ''A'') \<in> set (routes app_x_y)"
    by (simp add: app_x_y_def)
  have ne: "''/x'' \<noteq> []"
    by simp
  have n: "find (\<lambda>r. r_method r = GET \<and> r_path r = ''/x'') (routes (new_Rest :: (unit, unit) rest)) = None"
    by (simp add: new_Rest_def)
  have p1: "route_path (mount_prefix ''/one'') (route_path [] ''/x'') = ''/one/x''"
    by (simp add: route_path_def mount_prefix_def strip_trailing_slash_def)
  have p2: "route_path (mount_prefix ''/two'') (route_path [] ''/x'') = ''/two/x''"
    by (simp add: route_path_def mount_prefix_def strip_trailing_slash_def)
  from duplicate_route_same_string [OF r ne, of "text_handler ''B''" new_Rest "''/one''" "''/two''" new_Rest]
  show ?thesis using h h2 r n by (simp add: p1 p2)
qed

subsection \<open>The dispatch table\<close>





lemma holder_not_prototype: "holder p \<noteq> Object_prototype"
  by (simp add: holder_def)





text \<open>
  Every dispatch function the table holds, wherever it is held, is the one the getter
  built for some flattened route.
\<close>

lemma held_after_routes_step:
  "held (routes_step app r tbl) obj m = Some (k, f) \<Longrightarrow>
     held tbl obj m = Some (k, f) \<or> f = route_dispatch app r"
  by (auto simp: routes_step_def Let_def split: option.splits if_splits prod.splits)

lemma held_after_fold:
  "held (fold (routes_step app) rs tbl) obj m = Some (k, f) \<Longrightarrow>
     held tbl obj m = Some (k, f) \<or> (\<exists>r. r \<in> set rs \<and> f = route_dispatch app r)"
proof (induction rs arbitrary: tbl)
  case Nil
  then show ?case by simp
next
  case (Cons r rs)
  from Cons.IH [of "routes_step app r tbl"] Cons.prems
  show ?case
    by (auto dest: held_after_routes_step)
qed

lemma table_entry_is_route_dispatch:
  assumes "table_lookup (routes_getter app) p m = Some f"
  shows "\<exists>r. r \<in> set (getRoutes app) \<and> f = route_dispatch app r"
proof -
  from assms obtain obj k where "held (routes_getter app) obj m = Some (k, f)"
    by (auto simp: table_lookup_def object_property_def split: option.splits if_splits)
  then show ?thesis
    unfolding routes_getter_def
    by (auto dest: held_after_fold simp: empty_table_def)
qed

text \<open>
  What a route at the path \<^verbatim>\<open>__proto__\<close> does: its dispatch function is put on
  \<^verbatim>\<open>Object.prototype\<close>, so the entry of \<^verbatim>\<open>/o\<close>, which has a route for \<^verbatim>\<open>POST\<close> only, answers
  for \<^verbatim>\<open>GET\<close> as well; and the read of the path \<^verbatim>\<open>GET\<close> finds the function that the
  prototype holds under that name, so the route registered at the path \<^verbatim>\<open>GET\<close> is lost when
  a later route at \<^verbatim>\<open>__proto__\<close> replaces that function.
\<close>

lemma prototype_route_is_inherited:
  "last_route ''/o'' GET (getRoutes proto_app) = None
   \<and> map_option (\<lambda>f. f (get_request ''/o'')) (table_lookup (routes_getter proto_app) ''/o'' GET)
       = Some (Inr \<lparr>status = 200, headers = [(''Content-Type'', ''application/json'')],
                    body = BodyJson (JString ''polluted'')\<rparr>)"
  by (simp add: last_route_def routes_getter_def proto_app_def route_path_def
      strip_trailing_slash_def routes_step_def routes_property_def empty_table_def
      table_lookup_def prototype_members_def method_named_def object_property_def Let_def
      route_dispatch_def middlewaresOf_def array_sort_def build_chain_def dispatch_def
      new_Context_def text_handler_def Context_json_def no_options_def spread_def)

lemma prototype_route_shadows:
  "map_option (\<lambda>r. r_handler (fr_route r) = text_handler ''wanted'')
       (last_route ''GET'' GET (getRoutes shadow_app)) = Some True
   \<and> map_option (\<lambda>f. f (get_request ''GET'')) (table_lookup (routes_getter shadow_app) ''GET'' GET)
       = Some (Inr \<lparr>status = 200, headers = [(''Content-Type'', ''application/json'')],
                    body = BodyJson (JString ''second'')\<rparr>)"
  by (simp add: last_route_def routes_getter_def shadow_app_def route_path_def
      strip_trailing_slash_def routes_step_def routes_property_def empty_table_def
      table_lookup_def prototype_members_def method_named_def object_property_def Let_def
      route_dispatch_def middlewaresOf_def array_sort_def build_chain_def dispatch_def
      new_Context_def text_handler_def Context_json_def no_options_def spread_def)




subsection \<open>The dispatch function\<close>

text \<open>
  Claim C1 (the dispatch function always returns a response; a failure without a recorded
  response gives a 500 response of the shape \<^verbatim>\<open>{error: {message, status, ...details}}\<close>).
  As stated it does not hold: the response the \<^verbatim>\<open>catch\<close> branch builds has the body
  \<^verbatim>\<open>{"error": "Internal Server Error", "message": "boom"}\<close>, whose \<^verbatim>\<open>error\<close> is a string.
\<close>

theorem synthesized_500_not_error_shaped:
  "dispatch boom_handler new_Rest (get_request ''/'')
     = Inr \<lparr>status = 500, headers = [(''Content-Type'', ''application/json'')],
            body = BodyJson (JObject [(''error'', JString ''Internal Server Error''),
                                      (''message'', JString ''boom'')])\<rparr>
   \<and> \<not> error_shaped (BodyJson (JObject [(''error'', JString ''Internal Server Error''),
                                         (''message'', JString ''boom'')]))"
  by (simp add: dispatch_def boom_handler_def dispatch_catch_def new_Context_def new_Rest_def
      internal_error_response_def)

text \<open>The builder \<^verbatim>\<open>error\<close> of the context does produce that shape.\<close>

lemma Context_error_shaped:
  "error_shaped (body (fst (Context_error message st [] options c)))"
  by (simp add: Context_error_def Let_def spread_def)

text \<open>
  A chain that throws, without a recorded response, a value the \<^verbatim>\<open>catch\<close> block cannot
  report makes the \<^verbatim>\<open>catch\<close> block itself throw: the promise of the dispatch function
  rejects.
\<close>

lemma dispatch_rejects_unreportable:
  "next (new_Context request app) = (Threw e, c) \<Longrightarrow> ctx_response c = None \<Longrightarrow>
     \<not> reportable e \<Longrightarrow> \<exists>e'. dispatch next app request = Inl e'"
  by (cases e) (simp_all add: dispatch_def dispatch_catch_def)

lemma dispatch_rejects_nullish:
  "next (new_Context request app) = (Threw Nullish, c) \<Longrightarrow> ctx_response c = None \<Longrightarrow>
     dispatch next app request = Inl engine_type_error"
  by (simp add: dispatch_def dispatch_catch_def)

text \<open>
  Claim C1, amended. Let \<open>f\<close> be the function the getter builds for a flattened route
  \<open>route\<close> (every function the table holds is one of these) and \<open>next\<close> the chain composed
  for that route. Then \<open>f\<close> is the dispatch function around \<open>next\<close>, and for every request:
  when the chain completes and the context
  holds a response, \<open>f\<close> returns that response; when it completes without one, \<open>f\<close> returns
  the response with status 500, the header \<^verbatim>\<open>Content-Type: application/json\<close> and the JSON
  body \<^verbatim>\<open>{"error": "Internal Server Error", "message": "No response set in context"}\<close>;
  when the chain throws and the context holds a response, \<open>f\<close> returns that response; when
  the chain throws and the context holds none, \<open>f\<close> returns the response with status 500,
  that header and the JSON body \<^verbatim>\<open>{"error": "Internal Server Error", "message": m}\<close> for
  a thrown value whose message is the string \<open>m\<close> (or another value that serialises to
  \<open>m\<close>), and the body \<^verbatim>\<open>{"error": "Internal Server Error"}\<close>, without a message, for a
  thrown value whose message is \<^verbatim>\<open>undefined\<close>. So \<open>f\<close> returns a response for every request
  on which the chain, if it throws without a recorded response, throws a value that can
  be reported; about the other thrown values (\<^verbatim>\<open>null\<close>, \<^verbatim>\<open>undefined\<close>, a message that cannot
  be read or serialised) this statement says nothing.
\<close>

theorem dispatch_always_answers:
  assumes "route \<in> set (getRoutes app)"
    and "f = route_dispatch app route"
    and "next = build_chain (middlewaresOf app (fr_path route)) (fr_route route)"
  shows "f = dispatch next app
   \<and> (\<forall>v c r. next (new_Context request app) = (Returned v, c) \<and> ctx_response c = Some r
       \<longrightarrow> f request = Inr r)
   \<and> (\<forall>v c. next (new_Context request app) = (Returned v, c) \<and> ctx_response c = None
       \<longrightarrow> f request
            = Inr \<lparr>status = 500, headers = [(''Content-Type'', ''application/json'')],
                   body = BodyJson (JObject [(''error'', JString ''Internal Server Error''),
                            (''message'', JString ''No response set in context'')])\<rparr>)
   \<and> (\<forall>e c r. next (new_Context request app) = (Threw e, c) \<and> ctx_response c = Some r
       \<longrightarrow> f request = Inr r)
   \<and> (\<forall>msg c. next (new_Context request app) = (Threw (Error msg), c) \<and> ctx_response c = None
       \<longrightarrow> f request
            = Inr \<lparr>status = 500, headers = [(''Content-Type'', ''application/json'')],
                   body = BodyJson (JObject [(''error'', JString ''Internal Server Error''),
                            (''message'', JString msg)])\<rparr>)
   \<and> (\<forall>j c. next (new_Context request app) = (Threw (Message j), c) \<and> ctx_response c = None
       \<longrightarrow> f request
            = Inr \<lparr>status = 500, headers = [(''Content-Type'', ''application/json'')],
                   body = BodyJson (JObject [(''error'', JString ''Internal Server Error''),
                            (''message'', j)])\<rparr>)
   \<and> (\<forall>c. next (new_Context request app) = (Threw NoMessage, c) \<and> ctx_response c = None
       \<longrightarrow> f request
            = Inr \<lparr>status = 500, headers = [(''Content-Type'', ''application/json'')],
                   body = BodyJson (JObject [(''error'', JString ''Internal Server Error'')])\<rparr>)
   \<and> ((\<forall>e c. next (new_Context request app) = (Threw e, c) \<and> ctx_response c = None
          \<longrightarrow> reportable e)
       \<longrightarrow> (\<exists>r. f request = Inr r))"
proof -
  have f: "f = dispatch next app"
    using assms by (simp add: route_dispatch_def Let_def)
  have completes: "(\<forall>v c r. next (new_Context request app) = (Returned v, c) \<and> ctx_response c = Some r
       \<longrightarrow> f request = Inr r)
   \<and> (\<forall>v c. next (new_Context request app) = (Returned v, c) \<and> ctx_response c = None
       \<longrightarrow> f request
            = Inr \<lparr>status = 500, headers = [(''Content-Type'', ''application/json'')],
                   body = BodyJson (JObject [(''error'', JString ''Internal Server Error''),
                            (''message'', JString ''No response set in context'')])\<rparr>)"
    unfolding f by (simp add: dispatch_def dispatch_catch_def internal_error_response_def)
  have throws: "(\<forall>e c r. next (new_Context request app) = (Threw e, c) \<and> ctx_response c = Some r
       \<longrightarrow> f request = Inr r)
   \<and> (\<forall>msg c. next (new_Context request app) = (Threw (Error msg), c) \<and> ctx_response c = None
       \<longrightarrow> f request
            = Inr \<lparr>status = 500, headers = [(''Content-Type'', ''application/json'')],
                   body = BodyJson (JObject [(''error'', JString ''Internal Server Error''),
                            (''message'', JString msg)])\<rparr>)
   \<and> (\<forall>j c. next (new_Context request app) = (Threw (Message j), c) \<and> ctx_response c = None
       \<longrightarrow> f request
            = Inr \<lparr>status = 500, headers = [(''Content-Type'', ''application/json'')],
                   body = BodyJson (JObject [(''error'', JString ''Internal Server Error''),
                            (''message'', j)])\<rparr>)
   \<and> (\<forall>c. next (new_Context request app) = (Threw NoMessage, c) \<and> ctx_response c = None
       \<longrightarrow> f request
            = Inr \<lparr>status = 500, headers = [(''Content-Type'', ''application/json'')],
                   body = BodyJson (JObject [(''error'', JString ''Internal Server Error'')])\<rparr>)"
    unfolding f by (simp add: dispatch_def dispatch_catch_def internal_error_response_def)
  have total: "\<exists>r. f request = Inr r"
    if r: "\<forall>e c. next (new_Context request app) = (Threw e, c) \<and> ctx_response c = None
          \<longrightarrow> reportable e"
  proof (cases "next (new_Context request app)")
    case (Pair out c)
    show ?thesis
    proof (cases out)
      case (Returned v)
      with Pair show ?thesis
        unfolding f by (simp add: dispatch_def dispatch_catch_def split: option.splits)
    next
      case (Threw e)
      show ?thesis
      proof (cases "ctx_response c")
        case None
        with r Pair Threw have "reportable e" by blast
        with Pair Threw None show ?thesis
          unfolding f by (cases e) (simp_all add: dispatch_def dispatch_catch_def)
      next
        case (Some resp)
        with Pair Threw show ?thesis
          unfolding f by (simp add: dispatch_def dispatch_catch_def)
      qed
    qed
  qed
  from f completes throws total show ?thesis
    by blast
qed

theorem dispatch_always_answers_witness:
  "\<lparr>fr_route = Route GET ''/t'' teapot_then_boom, fr_path = ''/t'', fr_method = GET\<rparr>
       \<in> set (getRoutes teapot_app)
   \<and> teapot_then_boom (new_Context (get_request ''/t'') teapot_app)
       = (Threw (Error ''boom''),
          \<lparr>ctx_request = get_request ''/t'',
           ctx_response = Some \<lparr>status = 418, headers = [(''Content-Type'', ''application/json'')],
             body = BodyJson (JObject [(''error'',
                      JObject [(''message'', JString ''teapot''), (''status'', JNumber 418)])])\<rparr>,
           ctx_state = Map.empty, ctx_rest = Some None\<rparr>)
   \<and> route_dispatch teapot_app
         \<lparr>fr_route = Route GET ''/t'' teapot_then_boom, fr_path = ''/t'', fr_method = GET\<rparr>
         (get_request ''/t'')
       = Inr \<lparr>status = 418, headers = [(''Content-Type'', ''application/json'')],
               body = BodyJson (JObject [(''error'',
                        JObject [(''message'', JString ''teapot''), (''status'', JNumber 418)])])\<rparr>"
proof -
  let ?route = "\<lparr>fr_route = Route GET ''/t'' teapot_then_boom, fr_path = ''/t'', fr_method = GET\<rparr>"
  have l: "?route \<in> set (getRoutes teapot_app)"
    by (simp add: teapot_app_def route_path_def strip_trailing_slash_def)
  have n: "teapot_then_boom = build_chain (middlewaresOf teapot_app (fr_path ?route)) (fr_route ?route)"
    by (simp add: teapot_app_def build_chain_def)
  have r: "teapot_then_boom (new_Context (get_request ''/t'') teapot_app)
       = (Threw (Error ''boom''),
          \<lparr>ctx_request = get_request ''/t'',
           ctx_response = Some \<lparr>status = 418, headers = [(''Content-Type'', ''application/json'')],
             body = BodyJson (JObject [(''error'',
                      JObject [(''message'', JString ''teapot''), (''status'', JNumber 418)])])\<rparr>,
           ctx_state = Map.empty, ctx_rest = Some None\<rparr>)"
    by (simp add: teapot_then_boom_def Context_error_def new_Context_def teapot_app_def
        no_options_def spread_def Let_def)
  from dispatch_always_answers [OF l refl n, of "get_request ''/t''"]
  have "\<forall>e c r. teapot_then_boom (new_Context (get_request ''/t'') teapot_app) = (Threw e, c)
          \<and> ctx_response c = Some r
        \<longrightarrow> route_dispatch teapot_app ?route (get_request ''/t'') = Inr r"
    by blast
  with r have "route_dispatch teapot_app ?route (get_request ''/t'')
       = Inr \<lparr>status = 418, headers = [(''Content-Type'', ''application/json'')],
               body = BodyJson (JObject [(''error'',
                        JObject [(''message'', JString ''teapot''), (''status'', JNumber 418)])])\<rparr>"
    by simp
  with l r show ?thesis by simp
qed

subsection \<open>Ordinals in the flattened middleware view\<close>

lemma own_orders:
  "map fm_order (map (\<lambda>(index, m). \<lparr>fm_middleware = m, fm_path = f m, fm_order = index\<rparr>)
      (zip [0..<length ms] ms)) = [0..<length ms]"
proof -
  have "map fm_order (map (\<lambda>(index, m). \<lparr>fm_middleware = m, fm_path = f m, fm_order = index\<rparr>)
      (zip [0..<length ms] ms)) = map fst (zip [0..<length ms] ms)"
    by (simp add: case_prod_beta comp_def)
  then show ?thesis by simp
qed

lemma own_middlewares:
  "map fm_middleware (map (\<lambda>(index, m). \<lparr>fm_middleware = m, fm_path = f m, fm_order = index\<rparr>)
      (zip [0..<length ms] ms)) = ms"
proof -
  have "map fm_middleware (map (\<lambda>(index, m). \<lparr>fm_middleware = m, fm_path = f m, fm_order = index\<rparr>)
      (zip [0..<length ms] ms)) = map snd (zip [0..<length ms] ms)"
    by (simp add: case_prod_beta comp_def)
  then show ?thesis by simp
qed

lemma mounted_orders:
  "map fm_order (concat (map (\<lambda>mt. map (\<lambda>m. \<lparr>fm_middleware = fm_middleware m,
       fm_path = f mt m, fm_order = n + fm_order m\<rparr>) (g mt)) mts))
   = concat (map (\<lambda>mt. map (\<lambda>m. n + fm_order m) (g mt)) mts)"
  by (induction mts) simp_all

lemma mounted_middlewares:
  "map fm_middleware (concat (map (\<lambda>mt. map (\<lambda>m. \<lparr>fm_middleware = fm_middleware m,
       fm_path = f mt m, fm_order = n + fm_order m\<rparr>) (g mt)) mts))
   = concat (map (\<lambda>mt. map fm_middleware (g mt)) mts)"
  by (induction mts) simp_all

lemma length_own:
  "length (map (\<lambda>(index, m). \<lparr>fm_middleware = m, fm_path = f m, fm_order = index\<rparr>)
      (zip [0..<length ms] ms)) = length ms"
  by simp

lemma orders_of_getter:
  "map fm_order (middlewares_getter app) =
     [0..<length (middlewares app)]
     @ concat (map (\<lambda>mt. map (\<lambda>m. length (middlewares app) + fm_order m)
                              (middlewares_getter (snd mt))) (mounts app))"
proof (cases app)
  case (Rest rs ms mts sv)
  show ?thesis
    unfolding Rest middlewares_getter.simps Let_def rest.sel map_append
    by (simp only: own_orders mounted_orders length_own)
qed

lemma middlewares_of_getter:
  "map fm_middleware (middlewares_getter app) =
     middlewares app
     @ concat (map (\<lambda>mt. map fm_middleware (middlewares_getter (snd mt))) (mounts app))"
proof (cases app)
  case (Rest rs ms mts sv)
  show ?thesis
    unfolding Rest middlewares_getter.simps Let_def rest.sel map_append
    by (simp only: own_middlewares mounted_middlewares)
qed

text \<open>
  Claim C7 (parent's ordinals kept, children after the parent, and the middlewares of two
  children ordered by mount-call order). The last part does not hold: the ordinals of
  every child are offset by the number of the parent's own middlewares only. With a first
  child holding \<^verbatim>\<open>/:a\<close> and \<^verbatim>\<open>/:b\<close> and a second child holding \<^verbatim>\<open>/:c\<close>, the ordinals are
  0, 1 and 0, and for the route \<^verbatim>\<open>/x\<close>, where the three patterns rank alike, the sort puts
  \<^verbatim>\<open>/:c\<close> of the second child before \<^verbatim>\<open>/:b\<close> of the first.
\<close>

theorem sibling_ordinals_interleave:
  "mount ''/'' second_child (mount ''/'' first_child
       (Rest [Route GET ''/x'' (text_handler ''x'')] [] [] None)) = two_children
   \<and> map (\<lambda>m. (fm_path m, fm_order m)) (middlewares_getter two_children)
       = [(''/:a'', 0), (''/:b'', 1), (''/:c'', 0)]
   \<and> map (\<lambda>m. (fm_path m, fm_order m)) (middlewaresOf two_children ''/x'')
       = [(''/:a'', 0), (''/:c'', 0), (''/:b'', 1)]"
  by (simp add: mount_def two_children_def first_child_def second_child_def mount_prefix_def
      normalizePath_def strip_trailing_slash_def middlewaresOf_def middleware_applies_def
      exactRegex_test_def prefixRegex_test_def word_char_def array_sort_def
      compare_middlewares_def count_wildcards_def count_segments_def Let_def)

text \<open>
  Claim C7, amended: in the flattened view the application's own middlewares come first,
  in their order and with their indices as ordinals; then follow, mount by mount in
  mount-call order, the flattened middlewares of each child in the child's order, each
  with the ordinal it has in the child plus the number of the parent's own middlewares.
  So every own middleware has a smaller ordinal than every middleware of a child; the
  ordinals of two children are offset by the same amount and are not ordered by
  mount-call order.
\<close>

theorem flattened_ordinals:
  "map fm_order (middlewares_getter app) =
     [0..<length (middlewares app)]
     @ concat (map (\<lambda>mt. map (\<lambda>m. length (middlewares app) + fm_order m)
                              (middlewares_getter (snd mt))) (mounts app))
   \<and> map fm_middleware (middlewares_getter app) =
     middlewares app
     @ concat (map (\<lambda>mt. map fm_middleware (middlewares_getter (snd mt))) (mounts app))
   \<and> (\<forall>i j. i < length (middlewares app) \<and> length (middlewares app) \<le> j
          \<and> j < length (middlewares_getter app)
        \<longrightarrow> fm_order (middlewares_getter app ! i) = i
          \<and> fm_middleware (middlewares_getter app ! i) = middlewares app ! i
          \<and> fm_order (middlewares_getter app ! i) < fm_order (middlewares_getter app ! j))"
proof -
  let ?n = "length (middlewares app)"
  let ?g = "middlewares_getter app"
  let ?rest = "concat (map (\<lambda>mt. map (\<lambda>m. ?n + fm_order m) (middlewares_getter (snd mt))) (mounts app))"
  have o: "map fm_order ?g = [0..<?n] @ ?rest"
    by (rule orders_of_getter)
  have m: "map fm_middleware ?g = middlewares app
     @ concat (map (\<lambda>mt. map fm_middleware (middlewares_getter (snd mt))) (mounts app))"
    by (rule middlewares_of_getter)
  have len: "length ?g = ?n + length ?rest"
    using arg_cong [OF o, of length] by simp
  have "fm_order (?g ! i) = i \<and> fm_middleware (?g ! i) = middlewares app ! i
      \<and> fm_order (?g ! i) < fm_order (?g ! j)"
    if i: "i < ?n" and j: "?n \<le> j" "j < length ?g" for i j
  proof -
    have ig: "i < length ?g" using i len by simp
    have "fm_order (?g ! i) = map fm_order ?g ! i"
      using ig by simp
    also have "\<dots> = i"
      using i by (simp add: o nth_append)
    finally have oi: "fm_order (?g ! i) = i" .
    have "fm_middleware (?g ! i) = map fm_middleware ?g ! i"
      using ig by simp
    also have "\<dots> = middlewares app ! i"
      using i by (simp add: m nth_append)
    finally have mi: "fm_middleware (?g ! i) = middlewares app ! i" .
    have "fm_order (?g ! j) = map fm_order ?g ! j"
      using j by simp
    also have "\<dots> = ?rest ! (j - ?n)"
      using j by (simp add: o nth_append)
    finally have oj: "fm_order (?g ! j) = ?rest ! (j - ?n)" .
    have "j - ?n < length ?rest"
      using j len by simp
    then have "?rest ! (j - ?n) \<in> set ?rest"
      by (rule nth_mem)
    then have "?n \<le> ?rest ! (j - ?n)"
      by auto
    with oi oj mi i show ?thesis by simp
  qed
  with o m show ?thesis by blast
qed


theorem flattened_ordinals_witness:
  "map fm_order (middlewares_getter parent_with_child) = [0, 1, 2]
   \<and> map fm_path (middlewares_getter parent_with_child) = [''/p'', ''/api/:a'', ''/api/:b'']
   \<and> (0::nat) < length (middlewares parent_with_child)
   \<and> length (middlewares parent_with_child) \<le> 1
   \<and> 1 < length (middlewares_getter parent_with_child)
   \<and> fm_order (middlewares_getter parent_with_child ! 0)
       < fm_order (middlewares_getter parent_with_child ! 1)"
proof -
  have c: "map (\<lambda>m. Suc (fm_order m)) (middlewares_getter first_child) = [1, 2]"
    by (simp add: first_child_def)
  have p: "map fm_path (middlewares_getter parent_with_child) = [''/p'', ''/api/:a'', ''/api/:b'']"
    by (simp add: parent_with_child_def first_child_def mount_prefix_def normalizePath_def
        strip_trailing_slash_def)
  have n: "length (middlewares parent_with_child) = 1" "mounts parent_with_child = [(''/api'', first_child)]"
    by (simp_all add: parent_with_child_def)
  have l: "length (middlewares_getter parent_with_child) = 3"
    using arg_cong [OF p, of length] by simp
  note t = flattened_ordinals [of parent_with_child]
  from t have o: "map fm_order (middlewares_getter parent_with_child) = [0, 1, 2]"
    by (simp add: n c)
  from t have "0 < length (middlewares parent_with_child)
      \<and> length (middlewares parent_with_child) \<le> 1
      \<and> 1 < length (middlewares_getter parent_with_child)
    \<longrightarrow> fm_order (middlewares_getter parent_with_child ! 0)
       < fm_order (middlewares_getter parent_with_child ! 1)"
    by blast
  then have lt: "fm_order (middlewares_getter parent_with_child ! 0)
       < fm_order (middlewares_getter parent_with_child ! 1)"
    by (simp add: n l)
  from o p lt n l show ?thesis by simp
qed

subsection \<open>Middleware matching\<close>

lemma plus_unfold:
  "(\<exists>w q'. x # xs = (w @ q') @ r \<and> (w \<noteq> [] \<and> list_all P w) \<and> R q')
   \<longleftrightarrow> P x \<and> ((\<exists>q'. xs = q' @ r \<and> R q')
              \<or> (\<exists>w q'. xs = (w @ q') @ r \<and> (w \<noteq> [] \<and> list_all P w) \<and> R q'))"
  (is "?L \<longleftrightarrow> ?R")
proof
  assume ?L
  then obtain w q' where e: "x # xs = (w @ q') @ r" and w: "w \<noteq> []" "list_all P w" and q: "R q'"
    by blast
  from w obtain w' where w': "w = x # w'"
    using e by (cases w) auto
  show ?R
  proof (cases "w' = []")
    case True
    with e w w' q show ?thesis by auto
  next
    case False
    with e w w' q have "xs = (w' @ q') @ r \<and> (w' \<noteq> [] \<and> list_all P w') \<and> R q'" "P x"
      by auto
    then show ?thesis by blast
  qed
next
  assume r: ?R
  then have px: "P x" by blast
  from r consider (one) q' where "xs = q' @ r" "R q'"
    | (more) w q' where "xs = (w @ q') @ r" "w \<noteq> []" "list_all P w" "R q'"
    by blast
  then show ?L
  proof cases
    case one
    then have "x # xs = ([x] @ q') @ r \<and> ([x] \<noteq> [] \<and> list_all P [x]) \<and> R q'"
      using px by simp
    then show ?thesis by blast
  next
    case more
    then have "x # xs = ((x # w) @ q') @ r \<and> (x # w \<noteq> [] \<and> list_all P (x # w)) \<and> R q'"
      using px by simp
    then show ?thesis by blast
  qed
qed

lemma rx_test_iff:
  "rx_test k items s \<longleftrightarrow> (\<exists>q r. s = q @ r \<and> resolves items q \<and> k r)"
proof (induction k items s rule: rx_test.induct)
  case (1 k s)
  show ?case by simp
next
  case (2 k c items)
  show ?case by simp
next
  case (3 k c items x xs)
  show ?case by (auto simp: 3 Cons_eq_append_conv)
next
  case (4 k items)
  show ?case by simp
next
  case (5 k items x xs)
  have "(\<exists>q r. x # xs = q @ r \<and> resolves (AnyPlus # items) q \<and> k r)
    \<longleftrightarrow> (\<exists>r. k r \<and> (\<exists>w q'. x # xs = (w @ q') @ r
          \<and> (w \<noteq> [] \<and> list_all (\<lambda>x. \<not> line_terminator x) w) \<and> resolves items q'))"
    unfolding resolves.simps item_matches.simps by blast
  also have "\<dots> \<longleftrightarrow> (\<exists>r. k r \<and> (\<not> line_terminator x \<and> ((\<exists>q'. xs = q' @ r \<and> resolves items q')
       \<or> (\<exists>w q'. xs = (w @ q') @ r
          \<and> (w \<noteq> [] \<and> list_all (\<lambda>x. \<not> line_terminator x) w) \<and> resolves items q'))))"
    by (simp only: plus_unfold)
  also have "\<dots> \<longleftrightarrow> \<not> line_terminator x \<and> ((\<exists>q r. xs = q @ r \<and> resolves items q \<and> k r)
       \<or> (\<exists>q r. xs = q @ r \<and> resolves (AnyPlus # items) q \<and> k r))"
    unfolding resolves.simps item_matches.simps by blast
  finally show ?case
    by (simp add: 5)
next
  case (6 k items)
  show ?case by simp
next
  case (7 k items x xs)
  have "(\<exists>q r. x # xs = q @ r \<and> resolves (SegPlus # items) q \<and> k r)
    \<longleftrightarrow> (\<exists>r. k r \<and> (\<exists>w q'. x # xs = (w @ q') @ r
          \<and> (w \<noteq> [] \<and> list_all (\<lambda>x. x \<noteq> CHR ''/'') w) \<and> resolves items q'))"
    unfolding resolves.simps item_matches.simps by blast
  also have "\<dots> \<longleftrightarrow> (\<exists>r. k r \<and> (x \<noteq> CHR ''/'' \<and> ((\<exists>q'. xs = q' @ r \<and> resolves items q')
       \<or> (\<exists>w q'. xs = (w @ q') @ r
          \<and> (w \<noteq> [] \<and> list_all (\<lambda>x. x \<noteq> CHR ''/'') w) \<and> resolves items q'))))"
    by (simp only: plus_unfold)
  also have "\<dots> \<longleftrightarrow> x \<noteq> CHR ''/'' \<and> ((\<exists>q r. xs = q @ r \<and> resolves items q \<and> k r)
       \<or> (\<exists>q r. xs = q @ r \<and> resolves (SegPlus # items) q \<and> k r))"
    unfolding resolves.simps item_matches.simps by blast
  finally show ?case
    by (simp add: 7)
qed

lemma optional_tail_iff: "optional_tail r \<longleftrightarrow> followed_by_slash r"
  by (cases r) (auto simp: followed_by_slash_def)

lemma takeWhile_nonempty: "takeWhile P cs \<noteq> [] \<longleftrightarrow> cs \<noteq> [] \<and> P (hd cs)"
  by (cases cs) auto

lemma resolves_pattern_strings: "resolves (regexPattern P) q \<longleftrightarrow> q \<in> pattern_strings P"
proof (induction P arbitrary: q rule: regexPattern.induct)
  case 1
  show ?case by simp
next
  case (2 c cs)
  show ?case
  proof (cases "c = CHR ''*''")
    case True
    with 2 show ?thesis
      by (auto simp: followed_def wildcard_strings_def)
  next
    case star: False
    show ?thesis
    proof (cases "c = CHR '':'' \<and> cs \<noteq> [] \<and> word_char (hd cs)")
      case True
      with star 2 show ?thesis
        by (auto simp: followed_def parameter_strings_def takeWhile_nonempty)
    next
      case False
      with star 2 show ?thesis
        by (auto simp: followed_def takeWhile_nonempty)
    qed
  qed
qed

text \<open>
  Claim C4, amended: the pattern \<^verbatim>\<open>*\<close> alone applies to every path; any other pattern
  applies to a path exactly when the path is the pattern with its parameters and
  wildcards resolved, or starts with the resolved pattern followed by a slash (and
  characters other than line terminators), where a star resolves to one or more
  characters, slashes included and line terminators excluded, and a parameter \<^verbatim>\<open>:name\<close> to
  one or more characters other than the slash.
\<close>

theorem middleware_applies_iff:
  "middleware_applies P p \<longleftrightarrow>
     P = ''*'' \<or> (\<exists>q r. p = q @ r \<and> q \<in> pattern_strings P \<and> followed_by_slash r)"
proof -
  have "exactRegex_test (regexPattern P) p \<Longrightarrow> prefixRegex_test (regexPattern P) p"
    unfolding exactRegex_test_def prefixRegex_test_def rx_test_iff
    by (metis optional_tail.simps(1))
  then have "middleware_applies P p \<longleftrightarrow> P = ''*'' \<or> prefixRegex_test (regexPattern P) p"
    by (auto simp: middleware_applies_def)
  then show ?thesis
    by (simp add: prefixRegex_test_def rx_test_iff optional_tail_iff resolves_pattern_strings)
qed

text \<open>
  At \<^verbatim>\<open>/*/x\<close> and the path \<^verbatim>\<open>/a/b/x\<close> the star has to stand for \<^verbatim>\<open>a/b\<close>, slash included; the
  parameter of \<^verbatim>\<open>/:id/x\<close> cannot, so that pattern does not apply to the path.
\<close>

theorem middleware_applies_iff_witness:
  "middleware_applies ''/*/x'' ''/a/b/x''
   \<and> (\<exists>q r. ''/a/b/x'' = q @ r \<and> q \<in> pattern_strings ''/*/x'' \<and> followed_by_slash r)
   \<and> \<not> middleware_applies ''/:id/x'' ''/a/b/x''
   \<and> \<not> (\<exists>q r. ''/a/b/x'' = q @ r \<and> q \<in> pattern_strings ''/:id/x'' \<and> followed_by_slash r)
   \<and> middleware_applies ''/api/*'' ''/api/users/1''
   \<and> (\<exists>q r. ''/api/users/1'' = q @ r \<and> q \<in> pattern_strings ''/api/*'' \<and> followed_by_slash r)"
proof -
  have a: "middleware_applies ''/*/x'' ''/a/b/x''"
    by (simp add: middleware_applies_def exactRegex_test_def prefixRegex_test_def
        line_terminator_def)
  have b: "\<not> middleware_applies ''/:id/x'' ''/a/b/x''"
    by (simp add: middleware_applies_def exactRegex_test_def prefixRegex_test_def
        line_terminator_def word_char_def)
  have c: "middleware_applies ''/api/*'' ''/api/users/1''"
    by (simp add: middleware_applies_def exactRegex_test_def prefixRegex_test_def
        line_terminator_def)
  from middleware_applies_iff [of "''/*/x''" "''/a/b/x''"] a
  have a': "\<exists>q r. ''/a/b/x'' = q @ r \<and> q \<in> pattern_strings ''/*/x'' \<and> followed_by_slash r"
    by simp
  from middleware_applies_iff [of "''/:id/x''" "''/a/b/x''"] b
  have b': "\<not> (\<exists>q r. ''/a/b/x'' = q @ r \<and> q \<in> pattern_strings ''/:id/x'' \<and> followed_by_slash r)"
    by simp
  from middleware_applies_iff [of "''/api/*''" "''/api/users/1''"] c
  have c': "\<exists>q r. ''/api/users/1'' = q @ r \<and> q \<in> pattern_strings ''/api/*'' \<and> followed_by_slash r"
    by simp
  from a a' b b' c c' show ?thesis
    by blast
qed

text \<open>
  Claim C4 (a star matches zero or more further segments; \<^verbatim>\<open>/api/*\<close> applies when the
  remainder after \<^verbatim>\<open>/api/\<close> is empty). As stated it does not hold: the star becomes \<^verbatim>\<open>.+\<close>,
  which needs at least one character, so \<^verbatim>\<open>/api/*\<close> applies neither to \<^verbatim>\<open>/api/\<close> nor to
  \<^verbatim>\<open>/api\<close>, while it applies to \<^verbatim>\<open>/api/x/y\<close>. And a path that goes on after the pattern and a
  slash with a line feed is not matched, since \<^verbatim>\<open>.\<close> excludes line terminators.
\<close>

theorem star_needs_a_character:
  "\<not> middleware_applies ''/api/*'' ''/api/'' \<and> \<not> middleware_applies ''/api/*'' ''/api''
   \<and> middleware_applies ''/api/*'' ''/api/x/y''
   \<and> \<not> middleware_applies ''/api'' (''/api/x'' @ [CHR 0x0A])"
  by (simp add: middleware_applies_def exactRegex_test_def prefixRegex_test_def
      line_terminator_def)

subsection \<open>The order of the chain\<close>

lemma compare_negative_iff:
  "compare_middlewares a b < 0 \<longleftrightarrow> comparator_rank a < comparator_rank b"
  by (auto simp: compare_middlewares_def comparator_rank_def)

lemma sort_insert_insort_key:
  "sort_insert compare_middlewares x ys = insort_key comparator_rank x ys"
  by (induction ys) (auto simp: compare_negative_iff)

lemma array_sort_sort_key:
  "array_sort compare_middlewares xs = sort_key comparator_rank xs"
  by (induction xs) (simp_all add: array_sort_def sort_insert_insort_key)

lemma onion_append: "onion (ms @ ns) h = onion ms (onion ns h)"
  by (induction ms) simp_all

lemma chain_loop_take:
  "n \<le> length handlers \<Longrightarrow> chain_loop handlers n next = onion (take n handlers) next"
proof (induction n arbitrary: "next")
  case 0
  show ?case by simp
next
  case (Suc i)
  then have i: "i < length handlers" by simp
  have "chain_loop handlers (Suc i) next
      = onion (take i handlers) (\<lambda>context. (handlers ! i) context next)"
    using Suc by simp
  also have "\<dots> = onion (take i handlers @ [handlers ! i]) next"
    by (simp add: onion_append)
  also have "\<dots> = onion (take (Suc i) handlers) next"
    using i by (simp add: take_Suc_conv_app_nth)
  finally show ?case .
qed

lemma build_chain_onion:
  "build_chain mws route
     = onion (rev (map (\<lambda>m. m_handler (fm_middleware m)) mws)) (r_handler route)"
  by (simp add: build_chain_def Let_def chain_loop_take)

lemma sorted_partition:
  "sorted (map g xs) \<Longrightarrow> xs = filter (\<lambda>x. g x < k) xs @ filter (\<lambda>x. \<not> g x < k) xs"
proof (induction xs)
  case Nil
  show ?case by simp
next
  case (Cons x xs)
  then have ih: "xs = filter (\<lambda>x. g x < k) xs @ filter (\<lambda>x. \<not> g x < k) xs"
    and le: "\<forall>y\<in>set xs. g x \<le> g y"
    by simp_all
  show ?case
  proof (cases "g x < k")
    case True
    with ih show ?thesis by simp
  next
    case False
    with le have "\<forall>y\<in>set xs. \<not> g y < k" by auto
    then have "filter (\<lambda>x. g x < k) xs = []" "filter (\<lambda>x. \<not> g x < k) xs = xs"
      by (simp_all add: filter_empty_conv filter_id_conv)
    with False show ?thesis by simp
  qed
qed

lemma sorted_first_component:
  fixes f :: "'a \<Rightarrow> nat \<times> 'b::linorder"
  shows "sorted (map f xs) \<Longrightarrow> sorted (map (\<lambda>x. fst (f x)) xs)"
  by (induction xs) (auto simp: less_eq_prod_def)

lemma star_rank: "fst (comparator_rank m) < 1 \<longleftrightarrow> fm_path m \<noteq> ''*''"
  by (simp add: comparator_rank_def)

lemma count_wildcards_occurrences: "count_wildcards p = wildcard_occurrences p"
  by (induction p) (simp_all add: count_wildcards_def wildcard_occurrences_def)

lemma split_slash_nonempty: "split_slash p \<noteq> []"
  by (induction p) simp_all

lemma count_segments_split: "count_segments p = path_segments p"
proof -
  have "length (split_slash p) = Suc (length (filter (\<lambda>c. c = CHR ''/'') p))"
  proof (induction p)
    case Nil
    show ?case by simp
  next
    case (Cons c cs)
    with split_slash_nonempty [of cs] show ?case
      by (cases "split_slash cs") auto
  qed
  then show ?thesis
    by (simp add: count_segments_def path_segments_def)
qed

lemma not_word_char_slash: "\<not> word_char CHR ''/''"
  by (simp add: word_char_def)

lemma dropWhile_word_char:
  "list_all word_char (takeWhile (\<lambda>x. x \<noteq> CHR ''/'') cs) \<Longrightarrow>
     dropWhile word_char cs = dropWhile (\<lambda>x. x \<noteq> CHR ''/'') cs"
  by (induction cs) (auto simp: not_word_char_slash)

text \<open>
  On a pattern that writes its parameters plainly, the matches of \<^verbatim>\<open>:[^/]+\<close> that the
  comparison function counts are the parameters that matching resolves.
\<close>

lemma count_params_plain:
  "plain_parameters p \<Longrightarrow> count_params p = param_occurrences p"
proof (induction p rule: count_params.induct)
  case 1
  show ?case by (simp add: param_occurrences_def)
next
  case (2 c cs)
  show ?case
  proof (cases "c = CHR '':'' \<and> cs \<noteq> [] \<and> hd cs \<noteq> CHR ''/''")
    case True
    with "2.prems" have w: "list_all word_char (takeWhile (\<lambda>x. x \<noteq> CHR ''/'') cs)"
      and p: "plain_parameters (dropWhile (\<lambda>x. x \<noteq> CHR ''/'') cs)"
      by simp_all
    from True w have h: "word_char (hd cs)"
      by (cases cs) auto
    from True have "c \<noteq> CHR ''*''" by auto
    with True h have "regexPattern (c # cs) = SegPlus # regexPattern (dropWhile word_char cs)"
      by simp
    then have "param_occurrences (c # cs)
        = Suc (param_occurrences (dropWhile (\<lambda>x. x \<noteq> CHR ''/'') cs))"
      by (simp add: param_occurrences_def dropWhile_word_char [OF w])
    moreover from True p "2.IH"(1)
    have "count_params (dropWhile (\<lambda>x. x \<noteq> CHR ''/'') cs)
        = param_occurrences (dropWhile (\<lambda>x. x \<noteq> CHR ''/'') cs)"
      by simp
    ultimately show ?thesis
      using True by simp
  next
    case False
    with "2.prems" have "plain_parameters cs" by auto
    with False "2.IH"(2) have ih: "count_params cs = param_occurrences cs" by simp
    from False have "\<not> (c = CHR '':'' \<and> cs \<noteq> [] \<and> word_char (hd cs))"
      by (auto simp: not_word_char_slash)
    then have "param_occurrences (c # cs) = param_occurrences cs"
      by (auto simp: param_occurrences_def)
    with False ih show ?thesis by auto
  qed
qed

lemma comparator_rank_plain:
  "plain_parameters (fm_path m) \<Longrightarrow> comparator_rank m = specificity_rank m"
  by (simp add: comparator_rank_def specificity_rank_def count_wildcards_occurrences
      count_segments_split count_params_plain)

text \<open>
  What holds of every application, route path and route: the chain built for the route
  is the onion of the applicable middlewares around the route handler, taken in the
  reverse of the order that \<^verbatim>\<open>#middlewaresOf\<close> returns; that order consists of exactly the
  flattened middlewares that apply to the path and has every middleware with the pattern
  \<^verbatim>\<open>*\<close> behind all others, so that these are the outermost wrappers. When the flattened
  patterns write their parameters plainly, the order is ascending in the specificity rank
  (most specific first), so that the most specific middleware is next to the route
  handler.
\<close>

lemma chain_is_onion_of_sorted:
  "build_chain (middlewaresOf app path) route
     = onion (rev (map (\<lambda>m. m_handler (fm_middleware m)) (middlewaresOf app path)))
         (r_handler route)
   \<and> set (middlewaresOf app path)
       = {m \<in> set (middlewares_getter app). middleware_applies (fm_path m) path}
   \<and> middlewaresOf app path
       = filter (\<lambda>m. fm_path m \<noteq> ''*'') (middlewaresOf app path)
         @ filter (\<lambda>m. fm_path m = ''*'') (middlewaresOf app path)
   \<and> (list_all (\<lambda>m. plain_parameters (fm_path m)) (middlewares_getter app)
        \<longrightarrow> sorted (map specificity_rank (middlewaresOf app path)))"
proof -
  let ?ms = "middlewaresOf app path"
  have c: "build_chain ?ms route
     = onion (rev (map (\<lambda>m. m_handler (fm_middleware m)) ?ms)) (r_handler route)"
    by (rule build_chain_onion)
  have s: "sorted (map comparator_rank ?ms)"
    by (simp add: middlewaresOf_def array_sort_sort_key)
  have e: "set ?ms = {m \<in> set (middlewares_getter app). middleware_applies (fm_path m) path}"
    by (simp add: middlewaresOf_def array_sort_sort_key)
  from s have "sorted (map (\<lambda>m. fst (comparator_rank m)) ?ms)"
    by (rule sorted_first_component)
  then have "?ms = filter (\<lambda>m. fst (comparator_rank m) < 1) ?ms
      @ filter (\<lambda>m. \<not> fst (comparator_rank m) < 1) ?ms"
    by (rule sorted_partition)
  then have p: "?ms = filter (\<lambda>m. fm_path m \<noteq> ''*'') ?ms @ filter (\<lambda>m. fm_path m = ''*'') ?ms"
    by (simp only: star_rank not_not)
  have r: "sorted (map specificity_rank ?ms)"
    if "list_all (\<lambda>m. plain_parameters (fm_path m)) (middlewares_getter app)"
  proof -
    from that e have "\<forall>m\<in>set ?ms. comparator_rank m = specificity_rank m"
      by (auto simp: list_all_iff comparator_rank_plain)
    then have "map comparator_rank ?ms = map specificity_rank ?ms"
      by simp
    with s show ?thesis by simp
  qed
  from c e p r show ?thesis
    by blast
qed

text \<open>
  The scenario of the spec: with middlewares at \<^verbatim>\<open>*\<close> and at \<^verbatim>\<open>/users/*\<close> and the route
  \<^verbatim>\<open>GET /users/1\<close>, the middleware at \<^verbatim>\<open>*\<close> is the outer one.
\<close>

lemma chain_of_the_scenario:
  "map fm_path (middlewaresOf traced_app ''/users/1'') = [''/users/*'', ''*'']
   \<and> sorted (map specificity_rank (middlewaresOf traced_app ''/users/1''))
   \<and> ctx_state (snd (build_chain (middlewaresOf traced_app ''/users/1'')
           (Route GET ''/users/1'' traced_handler)
           (new_Context (get_request ''/users/1'') traced_app))) ''trace''
       = Some [''outer before'', ''inner before'', ''handler'', ''inner after'', ''outer after'']"
proof -
  have g: "middlewares_getter traced_app =
      [\<lparr>fm_middleware = Middleware ''*'' (tracing_middleware ''outer''), fm_path = ''*'', fm_order = 0\<rparr>,
       \<lparr>fm_middleware = Middleware ''/users/*'' (tracing_middleware ''inner''),
         fm_path = ''/users/*'', fm_order = 1\<rparr>]"
    by (simp add: traced_app_def normalizePath_def strip_trailing_slash_def)
  have a: "middleware_applies ''*'' ''/users/1''" "middleware_applies ''/users/*'' ''/users/1''"
    by (simp_all add: middleware_applies_def exactRegex_test_def prefixRegex_test_def
        line_terminator_def)
  have m: "middlewaresOf traced_app ''/users/1'' =
      [\<lparr>fm_middleware = Middleware ''/users/*'' (tracing_middleware ''inner''),
         fm_path = ''/users/*'', fm_order = 1\<rparr>,
       \<lparr>fm_middleware = Middleware ''*'' (tracing_middleware ''outer''), fm_path = ''*'', fm_order = 0\<rparr>]"
    by (simp add: middlewaresOf_def g a array_sort_def compare_middlewares_def)
  have pl: "list_all (\<lambda>m. plain_parameters (fm_path m)) (middlewares_getter traced_app)"
    by (simp add: g)
  from chain_is_onion_of_sorted [of traced_app "''/users/1''" "Route GET ''/users/1'' traced_handler"]
  have c: "build_chain (middlewaresOf traced_app ''/users/1'') (Route GET ''/users/1'' traced_handler)
      = onion [tracing_middleware ''outer'', tracing_middleware ''inner''] traced_handler"
    and s: "sorted (map specificity_rank (middlewaresOf traced_app ''/users/1''))"
    using pl by (simp_all add: m)
  from c have "ctx_state (snd (build_chain (middlewaresOf traced_app ''/users/1'')
           (Route GET ''/users/1'' traced_handler)
           (new_Context (get_request ''/users/1'') traced_app))) ''trace''
       = Some [''outer before'', ''inner before'', ''handler'', ''inner after'', ''outer after'']"
    by (simp add: tracing_middleware_def traced_handler_def log_trace_def Context_json_def
        new_Context_def Let_def)
  with s show ?thesis
    by (simp add: m)
qed

text \<open>
  Claim C2 (the chain wraps the route handler most-specific-innermost, for every route
  and every set of applicable middlewares). The comparison function counts as parameters
  the matches of \<^verbatim>\<open>:[^/]+\<close>, where matching resolves the matches of \<^verbatim>\<open>:\w+\<close>; the comment on
  that step of the comparison says that it compares the number of parameters. With
  middlewares at \<^verbatim>\<open>/key:-1\<close> and at \<^verbatim>\<open>/:identifier\<close> and the route \<^verbatim>\<open>GET /key:-1\<close>, the first
  pattern has no parameter (it stands for itself, character by character) and is the
  more specific one, but the comparison function counts one parameter in each pattern,
  goes on to the length and puts \<^verbatim>\<open>/:identifier\<close> first: the list it returns is not
  ascending in the specificity rank, and the middleware of the literal pattern wraps the
  one of the parameter pattern. In the same way \<^verbatim>\<open>/:a-:b\<close>, which has two parameters, is
  put before \<^verbatim>\<open>/:a\<close>, which has one, for the route \<^verbatim>\<open>GET /x-y\<close>.
\<close>

theorem parameter_count_misranks:
  "map fm_path (middlewaresOf key_app ''/key:-1'') = [''/:identifier'', ''/key:-1'']
   \<and> regexPattern ''/key:-1'' = map Lit ''/key:-1''
   \<and> param_occurrences ''/key:-1'' = 0 \<and> count_params ''/key:-1'' = 1
   \<and> param_occurrences ''/:identifier'' = 1 \<and> count_params ''/:identifier'' = 1
   \<and> map specificity_rank (middlewaresOf key_app ''/key:-1'')
       = [(0, 0, 1, - 2, - 12, 1), (0, 0, 0, - 2, - 7, 0)]
   \<and> \<not> sorted (map specificity_rank (middlewaresOf key_app ''/key:-1''))
   \<and> ctx_state (snd (build_chain (middlewaresOf key_app ''/key:-1'')
           (Route GET ''/key:-1'' traced_handler)
           (new_Context (get_request ''/key:-1'') key_app))) ''trace''
       = Some [''literal before'', ''parameter before'', ''handler'', ''parameter after'',
               ''literal after'']
   \<and> map fm_path (middlewaresOf dash_app ''/x-y'') = [''/:a-:b'', ''/:a'']
   \<and> param_occurrences ''/:a-:b'' = 2 \<and> count_params ''/:a-:b'' = 1
   \<and> param_occurrences ''/:a'' = 1 \<and> count_params ''/:a'' = 1
   \<and> \<not> sorted (map specificity_rank (middlewaresOf dash_app ''/x-y''))"
proof -
  have g: "middlewares_getter key_app =
      [\<lparr>fm_middleware = Middleware ''/key:-1'' (tracing_middleware ''literal''),
         fm_path = ''/key:-1'', fm_order = 0\<rparr>,
       \<lparr>fm_middleware = Middleware ''/:identifier'' (tracing_middleware ''parameter''),
         fm_path = ''/:identifier'', fm_order = 1\<rparr>]"
    by (simp add: key_app_def normalizePath_def strip_trailing_slash_def)
  have a: "middleware_applies ''/:identifier'' ''/key:-1''"
    "middleware_applies ''/key:-1'' ''/key:-1''"
    by (simp_all add: middleware_applies_def exactRegex_test_def prefixRegex_test_def
        line_terminator_def word_char_def)
  have m: "middlewaresOf key_app ''/key:-1'' =
      [\<lparr>fm_middleware = Middleware ''/:identifier'' (tracing_middleware ''parameter''),
         fm_path = ''/:identifier'', fm_order = 1\<rparr>,
       \<lparr>fm_middleware = Middleware ''/key:-1'' (tracing_middleware ''literal''),
         fm_path = ''/key:-1'', fm_order = 0\<rparr>]"
    by (simp add: middlewaresOf_def g a array_sort_def compare_middlewares_def
        count_wildcards_def count_segments_def)
  have k: "regexPattern ''/key:-1'' = map Lit ''/key:-1''"
    "param_occurrences ''/key:-1'' = 0" "count_params ''/key:-1'' = 1"
    "param_occurrences ''/:identifier'' = 1" "count_params ''/:identifier'' = 1"
    by (simp_all add: param_occurrences_def word_char_def)
  have r: "map specificity_rank (middlewaresOf key_app ''/key:-1'')
      = [(0, 0, 1, - 2, - 12, 1), (0, 0, 0, - 2, - 7, 0)]"
    by (simp add: m specificity_rank_def k wildcard_occurrences_def path_segments_def)
  have t: "ctx_state (snd (build_chain (middlewaresOf key_app ''/key:-1'')
           (Route GET ''/key:-1'' traced_handler)
           (new_Context (get_request ''/key:-1'') key_app))) ''trace''
       = Some [''literal before'', ''parameter before'', ''handler'', ''parameter after'',
               ''literal after'']"
    by (simp add: m build_chain_onion tracing_middleware_def traced_handler_def log_trace_def
        Context_json_def new_Context_def Let_def)
  have g': "middlewares_getter dash_app =
      [\<lparr>fm_middleware = Middleware ''/:a'' (tracing_middleware ''one''),
         fm_path = ''/:a'', fm_order = 0\<rparr>,
       \<lparr>fm_middleware = Middleware ''/:a-:b'' (tracing_middleware ''two''),
         fm_path = ''/:a-:b'', fm_order = 1\<rparr>]"
    by (simp add: dash_app_def normalizePath_def strip_trailing_slash_def)
  have a': "middleware_applies ''/:a'' ''/x-y''" "middleware_applies ''/:a-:b'' ''/x-y''"
    by (simp_all add: middleware_applies_def exactRegex_test_def prefixRegex_test_def
        line_terminator_def word_char_def)
  have m': "middlewaresOf dash_app ''/x-y'' =
      [\<lparr>fm_middleware = Middleware ''/:a-:b'' (tracing_middleware ''two''),
         fm_path = ''/:a-:b'', fm_order = 1\<rparr>,
       \<lparr>fm_middleware = Middleware ''/:a'' (tracing_middleware ''one''),
         fm_path = ''/:a'', fm_order = 0\<rparr>]"
    by (simp add: middlewaresOf_def g' a' array_sort_def compare_middlewares_def
        count_wildcards_def count_segments_def)
  have k': "param_occurrences ''/:a-:b'' = 2" "count_params ''/:a-:b'' = 1"
    "param_occurrences ''/:a'' = 1" "count_params ''/:a'' = 1"
    by (simp_all add: param_occurrences_def word_char_def)
  have r': "\<not> sorted (map specificity_rank (middlewaresOf dash_app ''/x-y''))"
    by (simp add: m' specificity_rank_def k' wildcard_occurrences_def path_segments_def)
  from r have r0: "\<not> sorted (map specificity_rank (middlewaresOf key_app ''/key:-1''))"
    by simp
  from m k r r0 t m' k' r' show ?thesis
    by simp
qed

subsection \<open>The examples are applications the registration methods build\<close>

lemma examples_are_registered:
  "use [''/:a'', ''/:b''] pass_through new_Rest = first_child"
  "use [''/:c''] pass_through new_Rest = second_child"
  "mount ''/api'' first_child (use [''/p''] pass_through new_Rest) = parent_with_child"
  "register GET ''/t'' teapot_then_boom new_Rest = Inr teapot_app"
  "register GET ''/users/1'' traced_handler
     (use [''/users/*''] (tracing_middleware ''inner'')
        (use [''*''] (tracing_middleware ''outer'') new_Rest)) = Inr traced_app"
  "register GET ''/key:-1'' traced_handler
     (use [''/:identifier''] (tracing_middleware ''parameter'')
        (use [''/key:-1''] (tracing_middleware ''literal'') new_Rest)) = Inr key_app"
  "register GET ''/x-y'' traced_handler
     (use [''/:a-:b''] (tracing_middleware ''two'')
        (use [''/:a''] (tracing_middleware ''one'') new_Rest)) = Inr dash_app"
  by (simp_all add: use_def mount_def register_def new_Route_def addRoute_def new_Rest_def
      first_child_def second_child_def parent_with_child_def teapot_app_def traced_app_def
      key_app_def dash_app_def)

text \<open>
  A truthy service is set once: the getter then returns it, and a second assignment
  throws. After the assignment of a falsy value the getter still throws and a further
  assignment is accepted.
\<close>

lemma service_set_once:
  "service app = None \<Longrightarrow>
     \<exists>app'. set_service (Some s) app = Inr app' \<and> get_service app' = Inr s
       \<and> set_service v app' = Inl (Error ''Service already set'')"
  by (simp add: set_service_def get_service_def)

lemma falsy_service_is_not_set:
  "service app = None \<Longrightarrow>
     \<exists>app'. set_service None app = Inr app' \<and> get_service app' = Inl (Error ''Service not set'')
       \<and> (\<exists>app''. set_service (Some s) app' = Inr app'' \<and> get_service app'' = Inr s)"
  by (simp add: set_service_def get_service_def)

end
